theory Spec2Isabelle
  imports Main
begin

section \<open>JavaScript strings\<close>

text \<open>
  A JavaScript string is a sequence of UTF-16 code units. A code unit is modelled as a
  natural number (below 65536 in every string the program handles; nothing here depends on
  the bound). \<open>str\<close> turns an ASCII literal into such a sequence.
\<close>

type_synonym jstring = "nat list"

definition str :: "string \<Rightarrow> jstring" where
  "str s = map of_char s"

text \<open>
  \<^verbatim>\<open>String.prototype.trim\<close> strips the code points of WhiteSpace and LineTerminator
  (ECMA-262): TAB, LF, VT, FF, CR, SPACE, NBSP, the Unicode space separators and ZWNBSP.
\<close>

definition isWhiteSpace :: "nat \<Rightarrow> bool" where
  "isWhiteSpace c \<longleftrightarrow>
     (0x9 \<le> c \<and> c \<le> 0xD) \<or> c = 0x20 \<or> c = 0xA0 \<or> c = 0x1680 \<or>
     (0x2000 \<le> c \<and> c \<le> 0x200A) \<or> c = 0x2028 \<or> c = 0x2029 \<or> c = 0x202F \<or>
     c = 0x205F \<or> c = 0x3000 \<or> c = 0xFEFF"

definition trim :: "jstring \<Rightarrow> jstring" where
  "trim s = rev (dropWhile isWhiteSpace (rev (dropWhile isWhiteSpace s)))"

text \<open>Truthiness of a value of type \<^verbatim>\<open>string | undefined\<close>: defined and not empty.\<close>

definition truthy :: "jstring option \<Rightarrow> bool" where
  "truthy v = (case v of None \<Rightarrow> False | Some s \<Rightarrow> s \<noteq> [])"

text \<open>The operator \<^verbatim>\<open>??\<close> on an optional value (\<open>None\<close> is \<^verbatim>\<open>undefined\<close> or \<^verbatim>\<open>null\<close>).\<close>

definition nullish :: "'a option \<Rightarrow> 'a \<Rightarrow> 'a" where
  "nullish v d = (case v of None \<Rightarrow> d | Some x \<Rightarrow> x)"

definition nullish_opt :: "'a option \<Rightarrow> 'a option \<Rightarrow> 'a option" where
  "nullish_opt v d = (case v of None \<Rightarrow> d | Some x \<Rightarrow> Some x)"

section \<open>Types (types.ts)\<close>

datatype LarkDomain = Lark | Feishu
datatype LarkConnectionMode = Websocket | Webhook
datatype DmPolicy = Dm_open | Dm_pairing | Dm_allowlist
datatype GroupPolicy = Group_open | Group_allowlist | Group_disabled

text \<open>
  \<^verbatim>\<open>LarkAccountConfig\<close>: every field is optional. The numbers of the configuration are only
  passed through, never computed with; they are modelled as integers.
\<close>

record LarkAccountConfig =
  enabled_opt :: "bool option"
  appId_opt :: "jstring option"
  appSecret_opt :: "jstring option"
  encryptKey_opt :: "jstring option"
  verificationToken_opt :: "jstring option"
  domain_opt :: "LarkDomain option"
  connectionMode_opt :: "LarkConnectionMode option"
  webhookPort_opt :: "int option"
  dmPolicy_opt :: "DmPolicy option"
  dmAllowlist_opt :: "jstring list option"
  groupPolicy_opt :: "GroupPolicy option"
  groupMentionGated_opt :: "bool option"
  groupAllowlist_opt :: "jstring list option"
  historyLimit_opt :: "int option"

record ResolvedLarkAccount =
  accountId :: jstring
  enabled :: bool
  configured :: bool
  appId :: jstring
  appSecret :: jstring
  encryptKey :: "jstring option"
  verificationToken :: "jstring option"
  domain :: LarkDomain
  connectionMode :: LarkConnectionMode
  webhookPort :: int
  dmPolicy :: DmPolicy
  dmAllowlist :: "jstring list"
  groupPolicy :: GroupPolicy
  groupMentionGated :: bool
  groupAllowlist :: "jstring list"
  historyLimit :: int

text \<open>
  \<^verbatim>\<open>LarkChannelConfig\<close>. The \<^verbatim>\<open>accounts\<close> object is the list of its own keys, in the order
  \<^verbatim>\<open>Object.keys\<close> enumerates them, each with its value; \<^verbatim>\<open>accounts[id]\<close> is \<open>map_of\<close>.
  (A key that \<^verbatim>\<open>accounts\<close> only inherits, such as \<^verbatim>\<open>constructor\<close>, yields an object without
  any of the fields of an account configuration, which resolves like the empty one.)
\<close>

record LarkChannelConfig =
  channel_enabled :: "bool option"
  accounts :: "(jstring \<times> LarkAccountConfig) list option"

text \<open>\<^verbatim>\<open>MoltbotConfig\<close>, as far as this plugin reads it: \<^verbatim>\<open>cfg.channels?.lark\<close>.\<close>

record Channels =
  lark :: "LarkChannelConfig option"

record MoltbotConfig =
  channels :: "Channels option"

text \<open>The four variables of \<^verbatim>\<open>process.env\<close> that the plugin reads.\<close>

record ProcessEnv =
  LARK_APP_ID :: "jstring option"
  LARK_APP_SECRET :: "jstring option"
  LARK_ENCRYPT_KEY :: "jstring option"
  LARK_VERIFICATION_TOKEN :: "jstring option"

section \<open>Account resolution (channel.ts)\<close>

definition DEFAULTS_domain :: LarkDomain where "DEFAULTS_domain = Lark"
definition DEFAULTS_connectionMode :: LarkConnectionMode where "DEFAULTS_connectionMode = Websocket"
definition DEFAULTS_webhookPort :: int where "DEFAULTS_webhookPort = 3000"
definition DEFAULTS_dmPolicy :: DmPolicy where "DEFAULTS_dmPolicy = Dm_pairing"
definition DEFAULTS_groupPolicy :: GroupPolicy where "DEFAULTS_groupPolicy = Group_open"
definition DEFAULTS_groupMentionGated :: bool where "DEFAULTS_groupMentionGated = True"
definition DEFAULTS_historyLimit :: int where "DEFAULTS_historyLimit = 10"

lemmas DEFAULTS_defs =
  DEFAULTS_domain_def DEFAULTS_connectionMode_def DEFAULTS_webhookPort_def
  DEFAULTS_dmPolicy_def DEFAULTS_groupPolicy_def DEFAULTS_groupMentionGated_def
  DEFAULTS_historyLimit_def

text \<open>The empty objects \<^verbatim>\<open>{}\<close> that the two getters fall back to.\<close>

definition emptyChannelConfig :: LarkChannelConfig where
  "emptyChannelConfig = \<lparr>channel_enabled = None, accounts = None\<rparr>"

definition emptyAccountConfig :: LarkAccountConfig where
  "emptyAccountConfig =
     \<lparr>enabled_opt = None, appId_opt = None, appSecret_opt = None, encryptKey_opt = None,
      verificationToken_opt = None, domain_opt = None, connectionMode_opt = None,
      webhookPort_opt = None, dmPolicy_opt = None, dmAllowlist_opt = None,
      groupPolicy_opt = None, groupMentionGated_opt = None, groupAllowlist_opt = None,
      historyLimit_opt = None\<rparr>"

definition getChannelConfig :: "MoltbotConfig \<Rightarrow> LarkChannelConfig" where
  "getChannelConfig cfg =
     (case channels cfg of
        None \<Rightarrow> emptyChannelConfig
      | Some ch \<Rightarrow> nullish (lark ch) emptyChannelConfig)"

definition getAccountConfig :: "LarkChannelConfig \<Rightarrow> jstring \<Rightarrow> LarkAccountConfig" where
  "getAccountConfig channelConfig aid =
     (case accounts channelConfig of
        None \<Rightarrow> emptyAccountConfig
      | Some accs \<Rightarrow> nullish (map_of accs aid) emptyAccountConfig)"

definition hasEnvCredentials :: "ProcessEnv \<Rightarrow> bool" where
  "hasEnvCredentials env \<longleftrightarrow> truthy (LARK_APP_ID env) \<and> truthy (LARK_APP_SECRET env)"

text \<open>
  \<^verbatim>\<open>resolveAccount\<close> is declared to return \<^verbatim>\<open>ResolvedLarkAccount | null\<close>; \<open>None\<close> is
  \<^verbatim>\<open>null\<close>. The process environment it reads is an argument.
\<close>

definition resolveAccount ::
  "MoltbotConfig \<Rightarrow> ProcessEnv \<Rightarrow> jstring \<Rightarrow> ResolvedLarkAccount option" where
  "resolveAccount cfg env aid =
     (let channelConfig = getChannelConfig cfg;
          accountConfig = getAccountConfig channelConfig aid;
          isDefault = (aid = str ''default'');
          appId' = nullish_opt (appId_opt accountConfig)
                     (if isDefault then LARK_APP_ID env else None);
          appSecret' = nullish_opt (appSecret_opt accountConfig)
                     (if isDefault then LARK_APP_SECRET env else None);
          encryptKey' = nullish_opt (encryptKey_opt accountConfig)
                     (if isDefault then LARK_ENCRYPT_KEY env else None);
          verificationToken' = nullish_opt (verificationToken_opt accountConfig)
                     (if isDefault then LARK_VERIFICATION_TOKEN env else None);
          configured' = (truthy (map_option trim appId') \<and> truthy (map_option trim appSecret'))
      in Some
        \<lparr>accountId = aid,
         enabled = nullish (enabled_opt accountConfig) True,
         configured = configured',
         appId = nullish appId' [],
         appSecret = nullish appSecret' [],
         encryptKey = encryptKey',
         verificationToken = verificationToken',
         domain = nullish (domain_opt accountConfig) DEFAULTS_domain,
         connectionMode = nullish (connectionMode_opt accountConfig) DEFAULTS_connectionMode,
         webhookPort = nullish (webhookPort_opt accountConfig) DEFAULTS_webhookPort,
         dmPolicy = nullish (dmPolicy_opt accountConfig) DEFAULTS_dmPolicy,
         dmAllowlist = nullish (dmAllowlist_opt accountConfig) [],
         groupPolicy = nullish (groupPolicy_opt accountConfig) DEFAULTS_groupPolicy,
         groupMentionGated = nullish (groupMentionGated_opt accountConfig) DEFAULTS_groupMentionGated,
         groupAllowlist = nullish (groupAllowlist_opt accountConfig) [],
         historyLimit = nullish (historyLimit_opt accountConfig) DEFAULTS_historyLimit\<rparr>)"

text \<open>\<^verbatim>\<open>larkPlugin.config.listAccountIds\<close>.\<close>

definition listAccountIds :: "MoltbotConfig \<Rightarrow> ProcessEnv \<Rightarrow> jstring list" where
  "listAccountIds cfg env =
     (let channelConfig = getChannelConfig cfg;
          accountIds = map fst (nullish (accounts channelConfig) [])
      in if str ''default'' \<notin> set accountIds \<and> hasEnvCredentials env
         then accountIds @ [str ''default'']
         else accountIds)"

text \<open>
  \<^verbatim>\<open>larkPlugin.dmPolicy\<close> and \<^verbatim>\<open>larkPlugin.groupPolicy\<close>:
  \<^verbatim>\<open>channelConfig.accounts?.default?.<field> ?? <default>\<close>.
\<close>

definition defaultAccountConfig :: "LarkChannelConfig \<Rightarrow> LarkAccountConfig option" where
  "defaultAccountConfig channelConfig =
     (case accounts channelConfig of
        None \<Rightarrow> None
      | Some accs \<Rightarrow> map_of accs (str ''default''))"

definition dmPolicy_mode :: "MoltbotConfig \<Rightarrow> DmPolicy" where
  "dmPolicy_mode cfg =
     nullish (Option.bind (defaultAccountConfig (getChannelConfig cfg)) dmPolicy_opt)
       DEFAULTS_dmPolicy"

definition dmPolicy_allowlist :: "MoltbotConfig \<Rightarrow> jstring list" where
  "dmPolicy_allowlist cfg =
     nullish (Option.bind (defaultAccountConfig (getChannelConfig cfg)) dmAllowlist_opt) []"

definition groupPolicy_mode :: "MoltbotConfig \<Rightarrow> GroupPolicy" where
  "groupPolicy_mode cfg =
     nullish (Option.bind (defaultAccountConfig (getChannelConfig cfg)) groupPolicy_opt)
       DEFAULTS_groupPolicy"

definition groupPolicy_mentionGated :: "MoltbotConfig \<Rightarrow> bool" where
  "groupPolicy_mentionGated cfg =
     nullish (Option.bind (defaultAccountConfig (getChannelConfig cfg)) groupMentionGated_opt)
       DEFAULTS_groupMentionGated"

definition groupPolicy_allowlist :: "MoltbotConfig \<Rightarrow> jstring list" where
  "groupPolicy_allowlist cfg =
     nullish (Option.bind (defaultAccountConfig (getChannelConfig cfg)) groupAllowlist_opt) []"

section \<open>Client factory (client.ts)\<close>

text \<open>
  A thrown value: an instance of \<^verbatim>\<open>Error\<close> with its message, or any other value.
\<close>

datatype thrown = Error jstring | NonError

text \<open>The enumeration \<^verbatim>\<open>Lark.Domain\<close> of the vendor SDK.\<close>

datatype Lark_Domain = Domain_Feishu | Domain_Lark

text \<open>The strings that the type \<^verbatim>\<open>LarkDomain\<close> stands for: \<^verbatim>\<open>"lark" | "feishu"\<close>.\<close>

fun domain_string :: "LarkDomain \<Rightarrow> jstring" where
  "domain_string Lark = str ''lark''"
| "domain_string Feishu = str ''feishu''"

definition toLarkDomain :: "LarkDomain \<Rightarrow> Lark_Domain" where
  "toLarkDomain d = (if d = Feishu then Domain_Feishu else Domain_Lark)"

definition cacheKey :: "ResolvedLarkAccount \<Rightarrow> jstring" where
  "cacheKey account =
     appId account @ str '':'' @ appSecret account @ str '':'' @ domain_string (domain account)"

definition validateCredentials :: "ResolvedLarkAccount \<Rightarrow> thrown + unit" where
  "validateCredentials account =
     (if appId account = [] \<or> appSecret account = []
      then Inl (Error (str ''Lark appId and appSecret are required''))
      else Inr ())"

text \<open>
  The objects that the vendor constructors \<^verbatim>\<open>new Lark.Client\<close> and \<^verbatim>\<open>new Lark.WSClient\<close>
  return: the options they were given and the identity of the object (\<open>client_ref\<close>,
  \<open>ws_ref\<close>). Two results are the same instance iff their identities are equal. The
  constructors are taken to return normally.
\<close>

record LarkClient =
  client_ref :: nat
  client_appId :: jstring
  client_appSecret :: jstring
  client_domain :: Lark_Domain

record LarkWSClient =
  ws_ref :: nat
  ws_appId :: jstring
  ws_appSecret :: jstring
  ws_domain :: Lark_Domain

text \<open>
  The state of the module: the map \<^verbatim>\<open>clientCache\<close>, and the next unused object identity.
\<close>

record client_state =
  clientCache :: "jstring \<rightharpoonup> LarkClient"
  next_ref :: nat

definition initial_client_state :: client_state where
  "initial_client_state = \<lparr>clientCache = Map.empty, next_ref = 0\<rparr>"

definition createLarkClient ::
  "ResolvedLarkAccount \<Rightarrow> client_state \<Rightarrow> (thrown + LarkClient) \<times> client_state" where
  "createLarkClient account s =
     (case validateCredentials account of
        Inl e \<Rightarrow> (Inl e, s)
      | Inr _ \<Rightarrow>
          (let key = cacheKey account in
           case clientCache s key of
             Some cached \<Rightarrow> (Inr cached, s)
           | None \<Rightarrow>
               (let client = \<lparr>client_ref = next_ref s, client_appId = appId account,
                      client_appSecret = appSecret account,
                      client_domain = toLarkDomain (domain account)\<rparr>
                in (Inr client,
                    s\<lparr>clientCache := (clientCache s)(key \<mapsto> client),
                      next_ref := Suc (next_ref s)\<rparr>))))"

definition createLarkWSClient ::
  "ResolvedLarkAccount \<Rightarrow> client_state \<Rightarrow> (thrown + LarkWSClient) \<times> client_state" where
  "createLarkWSClient account s =
     (case validateCredentials account of
        Inl e \<Rightarrow> (Inl e, s)
      | Inr _ \<Rightarrow>
          (Inr \<lparr>ws_ref = next_ref s, ws_appId = appId account, ws_appSecret = appSecret account,
                ws_domain = toLarkDomain (domain account)\<rparr>,
           s\<lparr>next_ref := Suc (next_ref s)\<rparr>))"

definition clearClientCache :: "client_state \<Rightarrow> client_state" where
  "clearClientCache s = s\<lparr>clientCache := Map.empty\<rparr>"

text \<open>The states that calls of the three exported functions lead to.\<close>

inductive reachable :: "client_state \<Rightarrow> bool" where
  initial: "reachable initial_client_state"
| create: "reachable s \<Longrightarrow> reachable (snd (createLarkClient account s))"
| create_ws: "reachable s \<Longrightarrow> reachable (snd (createLarkWSClient account s))"
| clear: "reachable s \<Longrightarrow> reachable (clearClientCache s)"

text \<open>
  What holds of every reachable state: a cached client has an identity that is already
  used up, and two keys never share an instance.
\<close>

definition cache_inv :: "client_state \<Rightarrow> bool" where
  "cache_inv s \<longleftrightarrow>
     (\<forall>k c. clientCache s k = Some c \<longrightarrow> client_ref c < next_ref s) \<and>
     (\<forall>k k' c c'. clientCache s k = Some c \<and> clientCache s k' = Some c' \<and>
        client_ref c = client_ref c' \<longrightarrow> k = k')"

text \<open>A run of calls of \<^verbatim>\<open>createLarkClient\<close>, one for each account of a list.\<close>

fun create_all :: "ResolvedLarkAccount list \<Rightarrow> client_state \<Rightarrow> client_state" where
  "create_all [] s = s"
| "create_all (a # as) s = create_all as (snd (createLarkClient a s))"

text \<open>An account with given credentials and domain, every other field at its default.\<close>

definition account_of :: "jstring \<Rightarrow> jstring \<Rightarrow> LarkDomain \<Rightarrow> ResolvedLarkAccount" where
  "account_of i k d =
     \<lparr>accountId = str ''default'', enabled = True,
      configured = (trim i \<noteq> [] \<and> trim k \<noteq> []), appId = i, appSecret = k,
      encryptKey = None, verificationToken = None, domain = d, connectionMode = Websocket,
      webhookPort = 3000, dmPolicy = Dm_pairing, dmAllowlist = [], groupPolicy = Group_open,
      groupMentionGated = True, groupAllowlist = [], historyLimit = 10\<rparr>"

section \<open>Outbound sender (channel.ts)\<close>

datatype ReceiveIdType = Chat_id | Open_id

definition inferReceiveIdType :: "jstring \<Rightarrow> ReceiveIdType" where
  "inferReceiveIdType recipientId =
     (if take 3 recipientId = str ''oc_'' then Chat_id else Open_id)"

text \<open>
  The argument of \<^verbatim>\<open>client.im.message.create\<close>, with the fields of its two parts
  \<^verbatim>\<open>params\<close> and \<^verbatim>\<open>data\<close>. The content is the string
  \<^verbatim>\<open>JSON.stringify({ text })\<close>, kept as the text it encodes.
\<close>

datatype payload = JSON_stringify_text jstring

record CreateRequest =
  params_receive_id_type :: ReceiveIdType
  data_receive_id :: jstring
  data_msg_type :: jstring
  data_content :: payload
  data_root_id :: "jstring option"

text \<open>The response of the vendor SDK: \<^verbatim>\<open>{ code?, msg?, data?: { message_id?, ... } }\<close>.\<close>

record MessageData =
  data_message_id :: "jstring option"

record CreateResponse =
  code :: "int option"
  msg :: "jstring option"
  data :: "MessageData option"

text \<open>
  The awaited call either resolves with a response or rejects with a thrown value. The
  vendor API is an argument of the model: \<open>api client request\<close> is the outcome of
  \<^verbatim>\<open>client.im.message.create(request)\<close>.
\<close>

datatype api_outcome = Resolves CreateResponse | Rejects thrown

record SendResult =
  ok :: bool
  messageId :: "jstring option"
  error :: "jstring option"

definition createRequest :: "jstring \<Rightarrow> jstring \<Rightarrow> jstring option \<Rightarrow> CreateRequest" where
  "createRequest recipientId txt threadId =
     \<lparr>params_receive_id_type = inferReceiveIdType recipientId,
      data_receive_id = recipientId,
      data_msg_type = str ''text'',
      data_content = JSON_stringify_text txt,
      data_root_id = (if truthy threadId then threadId else None)\<rparr>"

text \<open>The body of the \<^verbatim>\<open>try\<close> block of \<^verbatim>\<open>sendTextMessage\<close>.\<close>

definition sendTextMessage_try ::
  "(LarkClient \<Rightarrow> CreateRequest \<Rightarrow> api_outcome) \<Rightarrow> ResolvedLarkAccount \<Rightarrow> jstring \<Rightarrow>
   jstring \<Rightarrow> jstring option \<Rightarrow> client_state \<Rightarrow> (thrown + SendResult) \<times> client_state" where
  "sendTextMessage_try api account recipientId txt threadId s =
     (case createLarkClient account s of
        (Inl e, s') \<Rightarrow> (Inl e, s')
      | (Inr client, s') \<Rightarrow>
          (case api client (createRequest recipientId txt threadId) of
             Rejects e \<Rightarrow> (Inl e, s')
           | Resolves response \<Rightarrow>
               (if code response = Some 0 \<and> data response \<noteq> None
                then (Inr \<lparr>ok = True,
                       messageId = Option.bind (data response) data_message_id,
                       error = None\<rparr>, s')
                else (Inr \<lparr>ok = False, messageId = None,
                       error = Some (nullish (msg response) (str ''Unknown error''))\<rparr>, s'))))"

text \<open>
  \<^verbatim>\<open>sendTextMessage\<close>: the \<^verbatim>\<open>try\<close> block with its \<^verbatim>\<open>catch\<close>. \<open>Inl\<close> would be an
  exception that leaves the function (a rejected promise).
\<close>

definition sendTextMessage ::
  "(LarkClient \<Rightarrow> CreateRequest \<Rightarrow> api_outcome) \<Rightarrow> ResolvedLarkAccount \<Rightarrow> jstring \<Rightarrow>
   jstring \<Rightarrow> jstring option \<Rightarrow> client_state \<Rightarrow> (thrown + SendResult) \<times> client_state" where
  "sendTextMessage api account recipientId txt threadId s =
     (case sendTextMessage_try api account recipientId txt threadId s of
        (Inl e, s') \<Rightarrow>
          (Inr \<lparr>ok = False, messageId = None,
             error = Some (case e of Error m \<Rightarrow> m | NonError \<Rightarrow> str ''Unknown error'')\<rparr>, s')
      | (Inr result, s') \<Rightarrow> (Inr result, s'))"

text \<open>A vendor API that accepts every message, for the examples.\<close>

definition api_accepts :: "LarkClient \<Rightarrow> CreateRequest \<Rightarrow> api_outcome" where
  "api_accepts client request =
     Resolves \<lparr>code = Some 0, msg = Some (str ''success''),
       data = Some \<lparr>data_message_id = Some (str ''om_1'')\<rparr>\<rparr>"

section \<open>Message normalizer (monitor.ts)\<close>

text \<open>
  The values that \<^verbatim>\<open>JSON.parse\<close> returns. A number is kept as the literal it was
  written as: the program never computes with one.
\<close>

datatype json =
    JNull
  | JBool bool
  | JNum jstring
  | JStr jstring
  | JArr "json list"
  | JObj "(jstring \<times> json) list"

text \<open>
  \<^verbatim>\<open>JSON.parse\<close> (ECMA-404): a lexer for the tokens of JSON and a pushdown recogniser
  that builds the value. The members of an object are kept in the order of the text.
\<close>

datatype token =
    TLBrace | TRBrace | TLBracket | TRBracket | TColon | TComma
  | TString jstring | TNumber jstring | TTrue | TFalse | TNull

definition isDigit :: "nat \<Rightarrow> bool" where
  "isDigit c \<longleftrightarrow> 48 \<le> c \<and> c \<le> 57"

definition hexval :: "nat \<Rightarrow> nat option" where
  "hexval c =
     (if 48 \<le> c \<and> c \<le> 57 then Some (c - 48)
      else if 65 \<le> c \<and> c \<le> 70 then Some (c - 55)
      else if 97 \<le> c \<and> c \<le> 102 then Some (c - 87)
      else None)"

definition unescape :: "nat \<Rightarrow> nat option" where
  "unescape e =
     (if e = 34 \<or> e = 92 \<or> e = 47 then Some e
      else if e = 98 then Some 8
      else if e = 102 then Some 12
      else if e = 110 then Some 10
      else if e = 114 then Some 13
      else if e = 116 then Some 9
      else None)"

fun lex_string :: "nat list \<Rightarrow> (jstring \<times> nat list) option" where
  "lex_string [] = None"
| "lex_string (c # cs) =
     (if c = 34 then Some ([], cs)
      else if c = 92 then
        (case cs of
           [] \<Rightarrow> None
         | e # r \<Rightarrow>
             (if e = 117 then
                (case r of
                   h1 # h2 # h3 # h4 # r' \<Rightarrow>
                     (case (hexval h1, hexval h2, hexval h3, hexval h4) of
                        (Some a, Some b, Some c', Some d) \<Rightarrow>
                          map_option (apfst ((#) (((a * 16 + b) * 16 + c') * 16 + d)))
                            (lex_string r')
                      | _ \<Rightarrow> None)
                 | _ \<Rightarrow> None)
              else
                (case unescape e of
                   None \<Rightarrow> None
                 | Some ch \<Rightarrow> map_option (apfst ((#) ch)) (lex_string r))))
      else if c < 32 then None
      else map_option (apfst ((#) c)) (lex_string cs))"

definition lex_digits :: "nat list \<Rightarrow> (jstring \<times> nat list) option" where
  "lex_digits cs =
     (if takeWhile isDigit cs = [] then None
      else Some (takeWhile isDigit cs, dropWhile isDigit cs))"

definition lex_int :: "nat list \<Rightarrow> (jstring \<times> nat list) option" where
  "lex_int cs =
     (case cs of
        [] \<Rightarrow> None
      | c # r \<Rightarrow>
          (if c = 48 then Some ([48], r)
           else if isDigit c then lex_digits cs
           else None))"

definition lex_frac :: "nat list \<Rightarrow> (jstring \<times> nat list) option" where
  "lex_frac cs =
     (case cs of
        [] \<Rightarrow> Some ([], [])
      | c # r \<Rightarrow>
          (if c = 46 then map_option (apfst ((#) c)) (lex_digits r)
           else Some ([], cs)))"

definition lex_exp :: "nat list \<Rightarrow> (jstring \<times> nat list) option" where
  "lex_exp cs =
     (case cs of
        [] \<Rightarrow> Some ([], [])
      | c # r \<Rightarrow>
          (if c = 101 \<or> c = 69 then
             (case r of
                [] \<Rightarrow> None
              | g # r' \<Rightarrow>
                  (if g = 43 \<or> g = 45
                   then map_option (apfst (\<lambda>ds. c # g # ds)) (lex_digits r')
                   else map_option (apfst ((#) c)) (lex_digits r)))
           else Some ([], cs)))"

definition lex_number :: "nat list \<Rightarrow> (jstring \<times> nat list) option" where
  "lex_number cs =
     (case (case cs of [] \<Rightarrow> None
            | c # r \<Rightarrow> if c = 45 then map_option (apfst ((#) c)) (lex_int r) else lex_int cs) of
        None \<Rightarrow> None
      | Some (i, r1) \<Rightarrow>
          (case lex_frac r1 of
             None \<Rightarrow> None
           | Some (f, r2) \<Rightarrow>
               (case lex_exp r2 of
                  None \<Rightarrow> None
                | Some (e, r3) \<Rightarrow> Some (i @ f @ e, r3))))"

lemma lex_string_shorter: "lex_string cs = Some (s, r) \<Longrightarrow> length r < Suc (length cs)"
proof (induction cs arbitrary: s r rule: lex_string.induct)
  case 1
  then show ?case by simp
next
  case (2 c cs)
  then show ?case
    by (fastforce split: if_splits list.splits option.splits prod.splits)
qed

lemma lex_digits_shorter: "lex_digits cs = Some (s, r) \<Longrightarrow> length r < length cs"
  by (auto simp: lex_digits_def split: if_splits)
    (metis length_append length_greater_0_conv less_add_same_cancel2 takeWhile_dropWhile_id)

lemma lex_int_shorter: "lex_int cs = Some (s, r) \<Longrightarrow> length r < length cs"
  by (auto simp: lex_int_def split: list.splits if_splits dest: lex_digits_shorter)

lemma lex_frac_shorter: "lex_frac cs = Some (s, r) \<Longrightarrow> length r \<le> length cs"
  by (auto simp: lex_frac_def split: list.splits if_splits dest!: lex_digits_shorter)

lemma lex_exp_shorter: "lex_exp cs = Some (s, r) \<Longrightarrow> length r \<le> length cs"
  by (auto simp: lex_exp_def split: list.splits if_splits dest!: lex_digits_shorter)

lemma lex_number_shorter: "lex_number cs = Some (s, r) \<Longrightarrow> length r < length cs"
  by (auto simp: lex_number_def split: list.splits if_splits option.splits
      dest!: lex_int_shorter lex_frac_shorter lex_exp_shorter)

function tokens :: "nat list \<Rightarrow> token list option" where
  "tokens [] = Some []"
| "tokens (c # cs) =
     (if c = 32 \<or> c = 9 \<or> c = 10 \<or> c = 13 then tokens cs
      else if c = 123 then map_option ((#) TLBrace) (tokens cs)
      else if c = 125 then map_option ((#) TRBrace) (tokens cs)
      else if c = 91 then map_option ((#) TLBracket) (tokens cs)
      else if c = 93 then map_option ((#) TRBracket) (tokens cs)
      else if c = 58 then map_option ((#) TColon) (tokens cs)
      else if c = 44 then map_option ((#) TComma) (tokens cs)
      else if c = 34 then
        (case lex_string cs of
           None \<Rightarrow> None
         | Some (s, r) \<Rightarrow> map_option ((#) (TString s)) (tokens r))
      else if c = 45 \<or> isDigit c then
        (case lex_number (c # cs) of
           None \<Rightarrow> None
         | Some (l, r) \<Rightarrow> map_option ((#) (TNumber l)) (tokens r))
      else if take 4 (c # cs) = str ''true'' then map_option ((#) TTrue) (tokens (drop 3 cs))
      else if take 5 (c # cs) = str ''false'' then map_option ((#) TFalse) (tokens (drop 4 cs))
      else if take 4 (c # cs) = str ''null'' then map_option ((#) TNull) (tokens (drop 3 cs))
      else None)"
  by pat_completeness auto
termination
  by (relation "measure length")
    (auto dest: lex_string_shorter lex_number_shorter)

datatype frame =
    FArr "json list"
  | FObj "(jstring \<times> json) list"
  | FKey "(jstring \<times> json) list" jstring

datatype expect = EValue | EValueOrClose | EKeyOrClose | EKey | EColon | ESep | EEnd json

definition complete :: "json \<Rightarrow> frame list \<Rightarrow> (frame list \<times> expect) option" where
  "complete v st =
     (case st of
        [] \<Rightarrow> Some ([], EEnd v)
      | FArr vs # st' \<Rightarrow> Some (FArr (vs @ [v]) # st', ESep)
      | FKey ms k # st' \<Rightarrow> Some (FObj (ms @ [(k, v)]) # st', ESep)
      | FObj ms # st' \<Rightarrow> None)"

definition value_start :: "frame list \<Rightarrow> token \<Rightarrow> (frame list \<times> expect) option" where
  "value_start st t =
     (case t of
        TLBracket \<Rightarrow> Some (FArr [] # st, EValueOrClose)
      | TLBrace \<Rightarrow> Some (FObj [] # st, EKeyOrClose)
      | TString s \<Rightarrow> complete (JStr s) st
      | TNumber l \<Rightarrow> complete (JNum l) st
      | TTrue \<Rightarrow> complete (JBool True) st
      | TFalse \<Rightarrow> complete (JBool False) st
      | TNull \<Rightarrow> complete JNull st
      | _ \<Rightarrow> None)"

definition close_array :: "frame list \<Rightarrow> (frame list \<times> expect) option" where
  "close_array st = (case st of FArr vs # st' \<Rightarrow> complete (JArr vs) st' | _ \<Rightarrow> None)"

definition close_object :: "frame list \<Rightarrow> (frame list \<times> expect) option" where
  "close_object st = (case st of FObj ms # st' \<Rightarrow> complete (JObj ms) st' | _ \<Rightarrow> None)"

definition member_key :: "frame list \<Rightarrow> token \<Rightarrow> (frame list \<times> expect) option" where
  "member_key st t =
     (case t of
        TString k \<Rightarrow> (case st of FObj ms # st' \<Rightarrow> Some (FKey ms k # st', EColon) | _ \<Rightarrow> None)
      | _ \<Rightarrow> None)"

definition pstep :: "frame list \<times> expect \<Rightarrow> token \<Rightarrow> (frame list \<times> expect) option" where
  "pstep p t =
     (case p of (st, e) \<Rightarrow>
        (case e of
           EValue \<Rightarrow> value_start st t
         | EValueOrClose \<Rightarrow> (if t = TRBracket then close_array st else value_start st t)
         | EKeyOrClose \<Rightarrow> (if t = TRBrace then close_object st else member_key st t)
         | EKey \<Rightarrow> member_key st t
         | EColon \<Rightarrow> (if t = TColon then Some (st, EValue) else None)
         | ESep \<Rightarrow>
             (if t = TComma then
                (case st of
                   FArr vs # st' \<Rightarrow> Some (st, EValue)
                 | FObj ms # st' \<Rightarrow> Some (st, EKey)
                 | _ \<Rightarrow> None)
              else if t = TRBracket then close_array st
              else if t = TRBrace then close_object st
              else None)
         | EEnd v \<Rightarrow> None))"

fun prun :: "frame list \<times> expect \<Rightarrow> token list \<Rightarrow> (frame list \<times> expect) option" where
  "prun p [] = Some p"
| "prun p (t # ts) = (case pstep p t of None \<Rightarrow> None | Some p' \<Rightarrow> prun p' ts)"

definition parse_tokens :: "token list \<Rightarrow> json option" where
  "parse_tokens ts =
     (case prun ([], EValue) ts of
        Some ([], EEnd v) \<Rightarrow> Some v
      | _ \<Rightarrow> None)"

text \<open>
  What a function of monitor.ts can raise: a TypeError or a SyntaxError of the engine,
  or a value thrown by a collaborator.
\<close>

datatype raised = TypeError | SyntaxError | Thrown thrown

definition JSON_parse :: "jstring \<Rightarrow> raised + json" where
  "JSON_parse cs =
     (case tokens cs of
        None \<Rightarrow> Inl SyntaxError
      | Some ts \<Rightarrow> (case parse_tokens ts of None \<Rightarrow> Inl SyntaxError | Some v \<Rightarrow> Inr v))"

text \<open>
  Reading a property, for the names the program reads from a parsed payload (\<^verbatim>\<open>text\<close>,
  \<^verbatim>\<open>content\<close>, \<^verbatim>\<open>title\<close>, \<^verbatim>\<open>tag\<close>; no prototype defines one of them): on an object
  the last member of that name, on \<^verbatim>\<open>null\<close> a TypeError, on any other value
  \<^verbatim>\<open>undefined\<close> (\<open>None\<close>).
\<close>

definition field :: "json \<Rightarrow> jstring \<Rightarrow> json option" where
  "field v name = (case v of JObj ms \<Rightarrow> map_of (rev ms) name | _ \<Rightarrow> None)"

definition get_prop :: "json \<Rightarrow> jstring \<Rightarrow> raised + json option" where
  "get_prop v name = (if v = JNull then Inl TypeError else Inr (field v name))"

text \<open>The operator \<^verbatim>\<open>??\<close> on a property that was read.\<close>

definition nullish_json :: "json option \<Rightarrow> json \<Rightarrow> json" where
  "nullish_json v d = (case v of None \<Rightarrow> d | Some JNull \<Rightarrow> d | Some x \<Rightarrow> x)"

text \<open>\<^verbatim>\<open>Array.prototype.flat()\<close>, one level deep.\<close>

definition flat :: "json list \<Rightarrow> json list" where
  "flat xs = concat (map (\<lambda>x. case x of JArr ys \<Rightarrow> ys | _ \<Rightarrow> [x]) xs)"

text \<open>
  \<^verbatim>\<open>.filter(item => item.tag === "text")\<close> and \<^verbatim>\<open>.map(item => item.text)\<close>.
\<close>

fun filter_tag_text :: "json list \<Rightarrow> raised + json list" where
  "filter_tag_text [] = Inr []"
| "filter_tag_text (item # items) =
     (case get_prop item (str ''tag'') of
        Inl e \<Rightarrow> Inl e
      | Inr tag \<Rightarrow>
          (case filter_tag_text items of
             Inl e \<Rightarrow> Inl e
           | Inr kept \<Rightarrow> Inr (if tag = Some (JStr (str ''text'')) then item # kept else kept)))"

fun map_text :: "json list \<Rightarrow> raised + json option list" where
  "map_text [] = Inr []"
| "map_text (item # items) =
     (case get_prop item (str ''text'') of
        Inl e \<Rightarrow> Inl e
      | Inr t \<Rightarrow> (case map_text items of Inl e \<Rightarrow> Inl e | Inr ts \<Rightarrow> Inr (t # ts)))"

text \<open>
  The conversion ToString of ECMA-262 and \<^verbatim>\<open>Array.prototype.join\<close>, which renders
  \<^verbatim>\<open>null\<close> and \<^verbatim>\<open>undefined\<close> as the empty string. An array converts by joining its
  elements with a comma; a plain object converts to "[object Object]", unless it has a
  member \<^verbatim>\<open>toString\<close> of its own, which is not callable, and then the conversion raises
  a TypeError. How the engine prints a number is an argument: \<open>nts l\<close> is the string for
  the number written \<open>l\<close>.
\<close>

fun to_string :: "(jstring \<Rightarrow> jstring) \<Rightarrow> json \<Rightarrow> raised + jstring"
  and join :: "(jstring \<Rightarrow> jstring) \<Rightarrow> jstring \<Rightarrow> json list \<Rightarrow> raised + jstring" where
  "to_string nts JNull = Inr (str ''null'')"
| "to_string nts (JBool b) = Inr (if b then str ''true'' else str ''false'')"
| "to_string nts (JNum l) = Inr (nts l)"
| "to_string nts (JStr s) = Inr s"
| "to_string nts (JArr xs) = join nts (str '','') xs"
| "to_string nts (JObj ms) =
     (if str ''toString'' \<in> fst ` set ms then Inl TypeError else Inr (str ''[object Object]''))"
| "join nts sep [] = Inr []"
| "join nts sep (x # xs) =
     (case (if x = JNull then Inr [] else to_string nts x) of
        Inl e \<Rightarrow> Inl e
      | Inr s \<Rightarrow>
          (if xs = [] then Inr s
           else (case join nts sep xs of Inl e \<Rightarrow> Inl e | Inr r \<Rightarrow> Inr (s @ sep @ r))))"

text \<open>The body of the \<^verbatim>\<open>try\<close> block of \<^verbatim>\<open>extractText\<close>.\<close>

definition extractText_try :: "(jstring \<Rightarrow> jstring) \<Rightarrow> jstring \<Rightarrow> jstring \<Rightarrow> raised + json" where
  "extractText_try nts content messageType =
     (case JSON_parse content of
        Inl e \<Rightarrow> Inl e
      | Inr parsed \<Rightarrow>
          (if messageType = str ''text'' then
             (case get_prop parsed (str ''text'') of
                Inl e \<Rightarrow> Inl e
              | Inr t \<Rightarrow> Inr (nullish_json t (JStr [])))
           else if messageType = str ''post'' then
             (case get_prop parsed (str ''content'') of
                Inl e \<Rightarrow> Inl e
              | Inr (Some (JArr blocks)) \<Rightarrow>
                  (case filter_tag_text (flat blocks) of
                     Inl e \<Rightarrow> Inl e
                   | Inr items \<Rightarrow>
                       (case map_text items of
                          Inl e \<Rightarrow> Inl e
                        | Inr texts \<Rightarrow>
                            (case join nts [] (map (\<lambda>t. nullish_json t JNull) texts) of
                               Inl e \<Rightarrow> Inl e
                             | Inr s \<Rightarrow> Inr (JStr s))))
              | Inr _ \<Rightarrow>
                  (case get_prop parsed (str ''title'') of
                     Inl e \<Rightarrow> Inl e
                   | Inr t \<Rightarrow> Inr (nullish_json t (JStr []))))
           else Inr (JStr (str ''['' @ messageType @ str '' message]''))))"

text \<open>
  \<^verbatim>\<open>extractText\<close>: the \<^verbatim>\<open>try\<close> block with its \<^verbatim>\<open>catch\<close>, which returns the raw content
  whatever was raised. The declared result type is \<^verbatim>\<open>string\<close>, but \<^verbatim>\<open>parsed\<close> has type
  \<^verbatim>\<open>any\<close>, and the value returned for the kinds "text" and "post" (title) is whatever
  the payload holds; the result is therefore a JSON value, a string being \<open>JStr\<close>.
\<close>

definition extractText :: "(jstring \<Rightarrow> jstring) \<Rightarrow> jstring \<Rightarrow> jstring \<Rightarrow> json" where
  "extractText nts content messageType =
     (case extractText_try nts content messageType of
        Inl e \<Rightarrow> JStr content
      | Inr v \<Rightarrow> v)"

text \<open>
  For stating what the kind "post" yields: a block is tagged as plain text when its
  \<^verbatim>\<open>tag\<close> is the string "text"; its text is its member \<^verbatim>\<open>text\<close>, with \<^verbatim>\<open>null\<close>
  for an absent one.
\<close>

definition is_text_block :: "json \<Rightarrow> bool" where
  "is_text_block b \<longleftrightarrow> field b (str ''tag'') = Some (JStr (str ''text''))"

definition block_text :: "json \<Rightarrow> json" where
  "block_text b = nullish_json (field b (str ''text'')) JNull"

definition string_of :: "json \<Rightarrow> jstring" where
  "string_of v = (case v of JStr s \<Rightarrow> s | _ \<Rightarrow> [])"

text \<open>The event \<^verbatim>\<open>LarkMessageEvent\<close> with its parts, and \<^verbatim>\<open>ParsedMessage\<close> (types.ts).\<close>

record UserId =
  open_id :: jstring
  user_id :: "jstring option"
  union_id :: "jstring option"

record Sender =
  sender_id :: UserId
  sender_type :: jstring
  tenant_key :: jstring

record LarkMention =
  mention_key :: jstring
  mention_id :: UserId
  mention_name :: jstring
  mention_tenant_key :: jstring

datatype ChatType = P2p | Group

record Message =
  message_id :: jstring
  root_id :: "jstring option"
  parent_id :: "jstring option"
  create_time :: jstring
  update_time :: "jstring option"
  chat_id :: jstring
  chat_type :: ChatType
  message_type :: jstring
  message_content :: jstring
  mentions :: "LarkMention list option"

record LarkMessageEvent =
  sender :: Sender
  message :: Message

text \<open>
  The timestamp is the number \<^verbatim>\<open>parseInt(message.create_time, 10)\<close>; it is kept as the
  string it is parsed from.
\<close>

datatype js_number = ParseInt10 jstring

record ParsedMention =
  parsed_mention_id :: jstring
  parsed_mention_name :: jstring

record ParsedMessage =
  parsed_messageId :: jstring
  chatId :: jstring
  chatType :: ChatType
  senderId :: jstring
  senderType :: jstring
  parsed_text :: jstring
  threadId :: "jstring option"
  parsed_mentions :: "ParsedMention list"
  timestamp :: js_number

text \<open>
  \<^verbatim>\<open>parseMessage\<close>. \<^verbatim>\<open>text.trim()\<close> is a call of the method \<^verbatim>\<open>trim\<close> of a string; on any
  other value (a number, a boolean, an array, an object: none has a callable \<^verbatim>\<open>trim\<close>)
  the call raises a TypeError, which nothing in \<^verbatim>\<open>parseMessage\<close> catches.
\<close>

definition parseMessage ::
  "(jstring \<Rightarrow> jstring) \<Rightarrow> LarkMessageEvent \<Rightarrow> raised + ParsedMessage option" where
  "parseMessage nts event =
     (case extractText nts (message_content (message event)) (message_type (message event)) of
        JStr s \<Rightarrow>
          (if trim s = [] then Inr None
           else Inr (Some
             \<lparr>parsed_messageId = message_id (message event),
              chatId = chat_id (message event),
              chatType = chat_type (message event),
              senderId = open_id (sender_id (sender event)),
              senderType = sender_type (sender event),
              parsed_text = s,
              threadId = root_id (message event),
              parsed_mentions =
                map (\<lambda>m. \<lparr>parsed_mention_id = open_id (mention_id m),
                            parsed_mention_name = mention_name m\<rparr>)
                  (nullish (mentions (message event)) []),
              timestamp = ParseInt10 (create_time (message event))\<rparr>))
      | _ \<Rightarrow> Inl TypeError)"

section \<open>Plugin runtime (runtime.ts) and routing (monitor.ts)\<close>

datatype DeliveredChatType = Direct | Group_chat

record InboundMessage =
  inbound_channel :: jstring
  inbound_accountId :: jstring
  inbound_messageId :: jstring
  inbound_chatId :: jstring
  inbound_chatType :: DeliveredChatType
  inbound_senderId :: jstring
  inbound_text :: jstring
  inbound_threadId :: "jstring option"
  inbound_timestamp :: js_number
  inbound_raw :: LarkMessageEvent

text \<open>
  The host API \<^verbatim>\<open>MoltbotPluginApi\<close>. The awaited \<^verbatim>\<open>api.inbound.handleMessage(m)\<close> resolves
  (\<open>None\<close>) or rejects with a thrown value; the calls of the logger and of the handler
  are recorded, in order, in \<open>effects\<close>.
\<close>

record MoltbotPluginApi =
  handleMessage :: "InboundMessage \<Rightarrow> thrown option"

datatype host_effect =
    Logger_debug jstring
  | Logger_info jstring
  | Logger_warn jstring
  | Logger_error jstring
  | Inbound_handleMessage InboundMessage

record runtime_state =
  pluginApi :: "MoltbotPluginApi option"
  effects :: "host_effect list"

definition setLarkRuntime :: "MoltbotPluginApi \<Rightarrow> runtime_state \<Rightarrow> runtime_state" where
  "setLarkRuntime api s = s\<lparr>pluginApi := Some api\<rparr>"

definition getLarkRuntime :: "runtime_state \<Rightarrow> thrown + MoltbotPluginApi" where
  "getLarkRuntime s =
     (case pluginApi s of
        None \<Rightarrow> Inl (Error (str
          ''Lark runtime not initialized. Ensure the plugin is properly registered.''))
      | Some api \<Rightarrow> Inr api)"

fun chatType_string :: "ChatType \<Rightarrow> jstring" where
  "chatType_string P2p = str ''p2p''"
| "chatType_string Group = str ''group''"

definition routeMessage ::
  "(jstring \<Rightarrow> jstring) \<Rightarrow> LarkMessageEvent \<Rightarrow> ResolvedLarkAccount \<Rightarrow> runtime_state \<Rightarrow>
   (raised + unit) \<times> runtime_state" where
  "routeMessage nts event account s =
     (case getLarkRuntime s of
        Inl e \<Rightarrow> (Inl (Thrown e), s)
      | Inr api \<Rightarrow>
          (case parseMessage nts event of
             Inl e \<Rightarrow> (Inl e, s)
           | Inr None \<Rightarrow>
               (Inr (), s\<lparr>effects := effects s @
                  [Logger_debug (str ''[lark] Skipping empty or unparseable message'')]\<rparr>)
           | Inr (Some parsed) \<Rightarrow>
               (let inbound =
                      \<lparr>inbound_channel = str ''lark'',
                       inbound_accountId = accountId account,
                       inbound_messageId = parsed_messageId parsed,
                       inbound_chatId = chatId parsed,
                       inbound_chatType = (if chatType parsed = P2p then Direct else Group_chat),
                       inbound_senderId = senderId parsed,
                       inbound_text = parsed_text parsed,
                       inbound_threadId = threadId parsed,
                       inbound_timestamp = timestamp parsed,
                       inbound_raw = event\<rparr>;
                    s' = s\<lparr>effects := effects s @
                      [Logger_info (str ''[lark] Received message from '' @ senderId parsed @
                         str '' in '' @ chatType_string (chatType parsed) @ str '' '' @
                         chatId parsed),
                       Inbound_handleMessage inbound]\<rparr>
                in (case handleMessage api inbound of
                      Some e \<Rightarrow> (Inl (Thrown e), s')
                    | None \<Rightarrow> (Inr (), s')))))"

section \<open>Active connections (monitor.ts)\<close>

text \<open>
  The handle that \<^verbatim>\<open>startWebhookServer\<close> returns has the type \<^verbatim>\<open>{ stop: () => void }\<close>.
  What \<^verbatim>\<open>stop\<close> does belongs to the webhook module and is an argument of the model:
  \<open>stop server\<close> is \<open>None\<close> when the call returns and \<open>Some e\<close> when it throws \<open>e\<close>.
  \<open>calls\<close> records, in order, the method calls made on a socket client of the vendor
  SDK (with the name of the method) and on a webhook server handle.
\<close>

record WebhookServer =
  server_ref :: nat

datatype collaborator_call = WSClient_call nat jstring | WebhookServer_stop nat

record monitor_state =
  activeWsClient :: "LarkWSClient option"
  activeWebhookServer :: "WebhookServer option"
  calls :: "collaborator_call list"

definition stopMonitor ::
  "(WebhookServer \<Rightarrow> thrown option) \<Rightarrow> monitor_state \<Rightarrow> (thrown + unit) \<times> monitor_state" where
  "stopMonitor stop s =
     (let s1 = (if activeWsClient s \<noteq> None then s\<lparr>activeWsClient := None\<rparr> else s)
      in case activeWebhookServer s1 of
           None \<Rightarrow> (Inr (), s1)
         | Some server \<Rightarrow>
             (let s2 = s1\<lparr>calls := calls s1 @ [WebhookServer_stop (server_ref server)]\<rparr>
              in case stop server of
                   Some e \<Rightarrow> (Inl e, s2)
                 | None \<Rightarrow> (Inr (), s2\<lparr>activeWebhookServer := None\<rparr>)))"

text \<open>Concrete inputs for the examples of this part.\<close>

definition event_with :: "jstring \<Rightarrow> jstring \<Rightarrow> LarkMessageEvent" where
  "event_with kind raw =
     \<lparr>sender = \<lparr>sender_id = \<lparr>open_id = str ''ou_1'', user_id = None, union_id = None\<rparr>,
        sender_type = str ''user'', tenant_key = str ''t1''\<rparr>,
      message = \<lparr>message_id = str ''om_1'', root_id = None, parent_id = None,
        create_time = str ''1700000000000'', update_time = None, chat_id = str ''oc_1'',
        chat_type = P2p, message_type = kind, message_content = raw, mentions = None\<rparr>\<rparr>"

definition host_accepts :: MoltbotPluginApi where
  "host_accepts = \<lparr>handleMessage = (\<lambda>m. None)\<rparr>"

definition stop_returns :: "WebhookServer \<Rightarrow> thrown option" where
  "stop_returns server = None"

definition stop_throws :: "WebhookServer \<Rightarrow> thrown option" where
  "stop_throws server = Some (Error (str ''server is not running''))"

text \<open>
  The precedence as the specification words it, for comparison with \<open>resolveAccount\<close>:
  (a) the value of the partial configuration, (b) for the default account the value of the
  environment variable, (c) the default constant. \<open>envVar\<close> is \<open>None\<close> for a field that
  has no environment variable or whose variable is not set, \<open>dflt\<close> is \<open>None\<close> for a
  field without a default constant (the field stays undefined).
\<close>

definition spec_precedence ::
  "'a option \<Rightarrow> bool \<Rightarrow> 'a option \<Rightarrow> 'a option \<Rightarrow> 'a option" where
  "spec_precedence stored isDefault envVar dflt =
     (if stored \<noteq> None then stored
      else if isDefault \<and> envVar \<noteq> None then envVar
      else dflt)"

text \<open>
  The stored partial configuration of an account as the specification words it, read
  from the configuration itself: the entry of \<^verbatim>\<open>channels.lark.accounts\<close> under the account
  id, absent when any part of that path is absent.
\<close>

definition storedAccountConfig :: "MoltbotConfig \<Rightarrow> jstring \<Rightarrow> LarkAccountConfig option" where
  "storedAccountConfig cfg aid =
     (case channels cfg of
        None \<Rightarrow> None
      | Some ch \<Rightarrow>
          (case lark ch of
             None \<Rightarrow> None
           | Some lc \<Rightarrow> (case accounts lc of None \<Rightarrow> None | Some accs \<Rightarrow> map_of accs aid)))"

text \<open>Concrete inputs used in the examples below.\<close>

definition noStoredConfig :: MoltbotConfig where
  "noStoredConfig = \<lparr>channels = None\<rparr>"

definition env_cli_x :: ProcessEnv where
  "env_cli_x = \<lparr>LARK_APP_ID = Some (str ''cli_x''), LARK_APP_SECRET = Some (str ''secret_y''),
     LARK_ENCRYPT_KEY = None, LARK_VERIFICATION_TOKEN = None\<rparr>"

definition env_unset :: ProcessEnv where
  "env_unset = \<lparr>LARK_APP_ID = None, LARK_APP_SECRET = None,
     LARK_ENCRYPT_KEY = None, LARK_VERIFICATION_TOKEN = None\<rparr>"

definition env_empty_id :: ProcessEnv where
  "env_empty_id = \<lparr>LARK_APP_ID = Some [], LARK_APP_SECRET = Some (str ''secret_y''),
     LARK_ENCRYPT_KEY = None, LARK_VERIFICATION_TOKEN = None\<rparr>"

definition acct_stored_id :: LarkAccountConfig where
  "acct_stored_id =
     \<lparr>enabled_opt = None, appId_opt = Some (str ''cli_stored''), appSecret_opt = None,
      encryptKey_opt = None, verificationToken_opt = None, domain_opt = Some Feishu,
      connectionMode_opt = None, webhookPort_opt = None, dmPolicy_opt = None,
      dmAllowlist_opt = None, groupPolicy_opt = None, groupMentionGated_opt = None,
      groupAllowlist_opt = None, historyLimit_opt = Some 25\<rparr>"

definition acct_webhook :: LarkAccountConfig where
  "acct_webhook =
     \<lparr>enabled_opt = Some False, appId_opt = None, appSecret_opt = None,
      encryptKey_opt = None, verificationToken_opt = None, domain_opt = None,
      connectionMode_opt = Some Webhook, webhookPort_opt = Some 8080, dmPolicy_opt = None,
      dmAllowlist_opt = None, groupPolicy_opt = None, groupMentionGated_opt = None,
      groupAllowlist_opt = None, historyLimit_opt = None\<rparr>"

definition cfg_with :: "(jstring \<times> LarkAccountConfig) list \<Rightarrow> MoltbotConfig" where
  "cfg_with accs =
     \<lparr>channels = Some \<lparr>lark = Some \<lparr>channel_enabled = None, accounts = Some accs\<rparr>\<rparr>\<rparr>"

section \<open>Facts about strings\<close>

lemma trim_Nil: "trim [] = []"
  by (simp add: trim_def)

lemma trim_nonempty_arg: "trim s \<noteq> [] \<Longrightarrow> s \<noteq> []"
  by (auto simp: trim_def)

lemma str_inject: "str a = str b \<longleftrightarrow> a = b"
  unfolding str_def by (simp add: inj_map_eq_map inj_on_def)

section \<open>The account resolver\<close>

lemma truthy_trim: "truthy (map_option trim v) \<longleftrightarrow> trim (nullish v []) \<noteq> []"
  by (cases v) (simp_all add: truthy_def nullish_def trim_Nil)

lemma resolveAccount_total: "\<exists>r. resolveAccount cfg env aid = Some r"
  by (simp add: resolveAccount_def Let_def)

text \<open>
  C1. For every configuration, environment and account id, resolveAccount returns a
  descriptor whose \<open>configured\<close> flag is true exactly when its app identifier and its app
  secret are both non-empty after trimming whitespace. The flag is a function of these two
  fields alone: two descriptors, resolved from any configurations, environments and account
  ids, that agree on the two credentials agree on \<open>configured\<close>.
\<close>

theorem resolveAccount_configured:
  "(\<exists>r. resolveAccount cfg env aid = Some r \<and>
        (configured r \<longleftrightarrow> trim (appId r) \<noteq> [] \<and> trim (appSecret r) \<noteq> [])) \<and>
   (\<forall>r r'. resolveAccount cfg env aid = Some r \<and> resolveAccount cfg' env' aid' = Some r' \<and>
        appId r = appId r' \<and> appSecret r = appSecret r' \<longrightarrow> configured r = configured r')"
proof -
  have flag: "configured r \<longleftrightarrow> trim (appId r) \<noteq> [] \<and> trim (appSecret r) \<noteq> []"
    if "resolveAccount c e a = Some r" for c e a r
    using that by (auto simp: resolveAccount_def Let_def truthy_trim)
  obtain r where r: "resolveAccount cfg env aid = Some r"
    using resolveAccount_total by blast
  have "\<exists>r. resolveAccount cfg env aid = Some r \<and>
        (configured r \<longleftrightarrow> trim (appId r) \<noteq> [] \<and> trim (appSecret r) \<noteq> [])"
    using r flag [OF r] by blast
  moreover have "\<forall>r r'. resolveAccount cfg env aid = Some r \<and>
        resolveAccount cfg' env' aid' = Some r' \<and>
        appId r = appId r' \<and> appSecret r = appSecret r' \<longrightarrow> configured r = configured r'"
    using flag by metis
  ultimately show ?thesis by blast
qed

theorem resolveAccount_configured_witness:
  "\<exists>r r'.
     resolveAccount \<lparr>channels = None\<rparr>
       \<lparr>LARK_APP_ID = Some (str ''cli_x''), LARK_APP_SECRET = Some (str ''secret_y''),
        LARK_ENCRYPT_KEY = None, LARK_VERIFICATION_TOKEN = None\<rparr> (str ''default'') = Some r \<and>
     resolveAccount
       \<lparr>channels = Some \<lparr>lark = Some \<lparr>channel_enabled = None, accounts = Some
          [(str ''work'', emptyAccountConfig\<lparr>appId_opt := Some (str ''cli_x''),
              appSecret_opt := Some (str ''secret_y''), enabled_opt := Some False,
              domain_opt := Some Feishu\<rparr>)]\<rparr>\<rparr>\<rparr>
       \<lparr>LARK_APP_ID = None, LARK_APP_SECRET = None,
        LARK_ENCRYPT_KEY = None, LARK_VERIFICATION_TOKEN = None\<rparr> (str ''work'') = Some r' \<and>
     appId r = appId r' \<and> appSecret r = appSecret r' \<and> enabled r \<noteq> enabled r' \<and>
     configured r \<and> configured r'"
proof -
  let ?cA = "\<lparr>channels = None\<rparr>"
  let ?eA = "\<lparr>LARK_APP_ID = Some (str ''cli_x''), LARK_APP_SECRET = Some (str ''secret_y''),
        LARK_ENCRYPT_KEY = None, LARK_VERIFICATION_TOKEN = None\<rparr>"
  let ?cB = "\<lparr>channels = Some \<lparr>lark = Some \<lparr>channel_enabled = None, accounts = Some
          [(str ''work'', emptyAccountConfig\<lparr>appId_opt := Some (str ''cli_x''),
              appSecret_opt := Some (str ''secret_y''), enabled_opt := Some False,
              domain_opt := Some Feishu\<rparr>)]\<rparr>\<rparr>\<rparr>"
  let ?eB = "\<lparr>LARK_APP_ID = None, LARK_APP_SECRET = None,
        LARK_ENCRYPT_KEY = None, LARK_VERIFICATION_TOKEN = None\<rparr>"
  obtain r where r: "resolveAccount ?cA ?eA (str ''default'') = Some r"
    by (simp add: resolveAccount_def Let_def)
  obtain r' where r': "resolveAccount ?cB ?eB (str ''work'') = Some r'"
    by (simp add: resolveAccount_def Let_def)
  have a: "appId r = str ''cli_x''" "appSecret r = str ''secret_y''" "enabled r"
    using r
    by (auto simp: resolveAccount_def Let_def getChannelConfig_def getAccountConfig_def
        emptyChannelConfig_def emptyAccountConfig_def nullish_def nullish_opt_def)
  have b: "appId r' = str ''cli_x''" "appSecret r' = str ''secret_y''" "\<not> enabled r'"
    using r'
    by (auto simp: resolveAccount_def Let_def getChannelConfig_def getAccountConfig_def
        emptyChannelConfig_def emptyAccountConfig_def nullish_def nullish_opt_def)
  have t: "trim (str ''cli_x'') \<noteq> []" "trim (str ''secret_y'') \<noteq> []"
    by (simp_all add: trim_def str_def isWhiteSpace_def)
  note inst = resolveAccount_configured [of ?cA ?eA "str ''default''" ?cB ?eB "str ''work''"]
  from inst r a t have "configured r" by auto
  moreover from inst r r' a b have "configured r = configured r'" by metis
  ultimately show ?thesis using r r' a b by auto
qed

lemma stored_field:
  "f emptyAccountConfig = None \<Longrightarrow>
   f (getAccountConfig (getChannelConfig cfg) aid) = Option.bind (storedAccountConfig cfg aid) f"
  by (simp add: getAccountConfig_def getChannelConfig_def storedAccountConfig_def nullish_def
      emptyChannelConfig_def split: option.splits)

text \<open>
  C2. resolveAccount always returns a descriptor, and every field of it follows the
  precedence of the specification: the value stored for the account under
  channels.lark.accounts if present, else for the account "default" the environment
  variable of the field (four fields have one), else the default constant (the
  encryption key and the verification token have none and stay undefined). With no
  stored configuration and the environment app id "cli_x" and app secret "secret_y", the
  account "default" resolves to configured, appId "cli_x", the websocket mode and history
  limit 10.
\<close>

theorem resolveAccount_precedence:
  "(\<exists>r. resolveAccount cfg env aid = Some r \<and> accountId r = aid \<and>
      Some (enabled r) = spec_precedence (Option.bind (storedAccountConfig cfg aid) enabled_opt)
         (aid = str ''default'') None (Some True) \<and>
      Some (appId r) = spec_precedence (Option.bind (storedAccountConfig cfg aid) appId_opt)
         (aid = str ''default'') (LARK_APP_ID env) (Some []) \<and>
      Some (appSecret r) = spec_precedence (Option.bind (storedAccountConfig cfg aid) appSecret_opt)
         (aid = str ''default'') (LARK_APP_SECRET env) (Some []) \<and>
      encryptKey r = spec_precedence (Option.bind (storedAccountConfig cfg aid) encryptKey_opt)
         (aid = str ''default'') (LARK_ENCRYPT_KEY env) None \<and>
      verificationToken r =
         spec_precedence (Option.bind (storedAccountConfig cfg aid) verificationToken_opt)
         (aid = str ''default'') (LARK_VERIFICATION_TOKEN env) None \<and>
      Some (domain r) = spec_precedence (Option.bind (storedAccountConfig cfg aid) domain_opt)
         (aid = str ''default'') None (Some Lark) \<and>
      Some (connectionMode r) =
         spec_precedence (Option.bind (storedAccountConfig cfg aid) connectionMode_opt)
         (aid = str ''default'') None (Some Websocket) \<and>
      Some (webhookPort r) =
         spec_precedence (Option.bind (storedAccountConfig cfg aid) webhookPort_opt)
         (aid = str ''default'') None (Some 3000) \<and>
      Some (dmPolicy r) = spec_precedence (Option.bind (storedAccountConfig cfg aid) dmPolicy_opt)
         (aid = str ''default'') None (Some Dm_pairing) \<and>
      Some (dmAllowlist r) =
         spec_precedence (Option.bind (storedAccountConfig cfg aid) dmAllowlist_opt)
         (aid = str ''default'') None (Some []) \<and>
      Some (groupPolicy r) =
         spec_precedence (Option.bind (storedAccountConfig cfg aid) groupPolicy_opt)
         (aid = str ''default'') None (Some Group_open) \<and>
      Some (groupMentionGated r) =
         spec_precedence (Option.bind (storedAccountConfig cfg aid) groupMentionGated_opt)
         (aid = str ''default'') None (Some True) \<and>
      Some (groupAllowlist r) =
         spec_precedence (Option.bind (storedAccountConfig cfg aid) groupAllowlist_opt)
         (aid = str ''default'') None (Some []) \<and>
      Some (historyLimit r) =
         spec_precedence (Option.bind (storedAccountConfig cfg aid) historyLimit_opt)
         (aid = str ''default'') None (Some 10)) \<and>
   (\<exists>r. resolveAccount noStoredConfig env_cli_x (str ''default'') = Some r \<and>
      configured r \<and> appId r = str ''cli_x'' \<and> connectionMode r = Websocket \<and>
      historyLimit r = 10)"
proof -
  have prec: "Some (nullish v d) = spec_precedence v b None (Some d)" for v :: "'a option" and b d
    by (cases v) (simp_all add: nullish_def spec_precedence_def)
  have cred: "Some (nullish (spec_precedence v b e None) d) = spec_precedence v b e (Some d)"
    for v e :: "'a option" and b d
    by (cases v; cases e) (simp_all add: nullish_def spec_precedence_def)
  have opt: "nullish_opt v (if b then e else None) = spec_precedence v b e None"
    for v e :: "'a option" and b
    by (cases v; cases e) (simp_all add: nullish_opt_def spec_precedence_def)
  have e: "enabled_opt emptyAccountConfig = None" "appId_opt emptyAccountConfig = None"
    "appSecret_opt emptyAccountConfig = None" "encryptKey_opt emptyAccountConfig = None"
    "verificationToken_opt emptyAccountConfig = None" "domain_opt emptyAccountConfig = None"
    "connectionMode_opt emptyAccountConfig = None" "webhookPort_opt emptyAccountConfig = None"
    "dmPolicy_opt emptyAccountConfig = None" "dmAllowlist_opt emptyAccountConfig = None"
    "groupPolicy_opt emptyAccountConfig = None" "groupMentionGated_opt emptyAccountConfig = None"
    "groupAllowlist_opt emptyAccountConfig = None" "historyLimit_opt emptyAccountConfig = None"
    by (simp_all add: emptyAccountConfig_def)
  note st =
    stored_field [of enabled_opt cfg aid, OF e(1)]
    stored_field [of appId_opt cfg aid, OF e(2)]
    stored_field [of appSecret_opt cfg aid, OF e(3)]
    stored_field [of encryptKey_opt cfg aid, OF e(4)]
    stored_field [of verificationToken_opt cfg aid, OF e(5)]
    stored_field [of domain_opt cfg aid, OF e(6)]
    stored_field [of connectionMode_opt cfg aid, OF e(7)]
    stored_field [of webhookPort_opt cfg aid, OF e(8)]
    stored_field [of dmPolicy_opt cfg aid, OF e(9)]
    stored_field [of dmAllowlist_opt cfg aid, OF e(10)]
    stored_field [of groupPolicy_opt cfg aid, OF e(11)]
    stored_field [of groupMentionGated_opt cfg aid, OF e(12)]
    stored_field [of groupAllowlist_opt cfg aid, OF e(13)]
    stored_field [of historyLimit_opt cfg aid, OF e(14)]
  have general: "\<exists>r. resolveAccount cfg env aid = Some r \<and> accountId r = aid \<and>
      Some (enabled r) = spec_precedence (Option.bind (storedAccountConfig cfg aid) enabled_opt)
         (aid = str ''default'') None (Some True) \<and>
      Some (appId r) = spec_precedence (Option.bind (storedAccountConfig cfg aid) appId_opt)
         (aid = str ''default'') (LARK_APP_ID env) (Some []) \<and>
      Some (appSecret r) = spec_precedence (Option.bind (storedAccountConfig cfg aid) appSecret_opt)
         (aid = str ''default'') (LARK_APP_SECRET env) (Some []) \<and>
      encryptKey r = spec_precedence (Option.bind (storedAccountConfig cfg aid) encryptKey_opt)
         (aid = str ''default'') (LARK_ENCRYPT_KEY env) None \<and>
      verificationToken r =
         spec_precedence (Option.bind (storedAccountConfig cfg aid) verificationToken_opt)
         (aid = str ''default'') (LARK_VERIFICATION_TOKEN env) None \<and>
      Some (domain r) = spec_precedence (Option.bind (storedAccountConfig cfg aid) domain_opt)
         (aid = str ''default'') None (Some Lark) \<and>
      Some (connectionMode r) =
         spec_precedence (Option.bind (storedAccountConfig cfg aid) connectionMode_opt)
         (aid = str ''default'') None (Some Websocket) \<and>
      Some (webhookPort r) =
         spec_precedence (Option.bind (storedAccountConfig cfg aid) webhookPort_opt)
         (aid = str ''default'') None (Some 3000) \<and>
      Some (dmPolicy r) = spec_precedence (Option.bind (storedAccountConfig cfg aid) dmPolicy_opt)
         (aid = str ''default'') None (Some Dm_pairing) \<and>
      Some (dmAllowlist r) =
         spec_precedence (Option.bind (storedAccountConfig cfg aid) dmAllowlist_opt)
         (aid = str ''default'') None (Some []) \<and>
      Some (groupPolicy r) =
         spec_precedence (Option.bind (storedAccountConfig cfg aid) groupPolicy_opt)
         (aid = str ''default'') None (Some Group_open) \<and>
      Some (groupMentionGated r) =
         spec_precedence (Option.bind (storedAccountConfig cfg aid) groupMentionGated_opt)
         (aid = str ''default'') None (Some True) \<and>
      Some (groupAllowlist r) =
         spec_precedence (Option.bind (storedAccountConfig cfg aid) groupAllowlist_opt)
         (aid = str ''default'') None (Some []) \<and>
      Some (historyLimit r) =
         spec_precedence (Option.bind (storedAccountConfig cfg aid) historyLimit_opt)
         (aid = str ''default'') None (Some 10)"
    unfolding resolveAccount_def Let_def DEFAULTS_defs st
    by (simp add: prec cred opt del: not_None_eq)
  have scenario: "\<exists>r. resolveAccount noStoredConfig env_cli_x (str ''default'') = Some r \<and>
      configured r \<and> appId r = str ''cli_x'' \<and> connectionMode r = Websocket \<and>
      historyLimit r = 10"
    by (simp add: resolveAccount_def Let_def noStoredConfig_def env_cli_x_def
        getChannelConfig_def getAccountConfig_def emptyChannelConfig_def emptyAccountConfig_def
        nullish_def nullish_opt_def truthy_def trim_def str_def isWhiteSpace_def DEFAULTS_defs)
  from general scenario show ?thesis by blast
qed

theorem resolveAccount_precedence_witness:
  "storedAccountConfig (cfg_with [(str ''default'', acct_stored_id), (str ''work'', acct_webhook)])
     (str ''default'') = Some acct_stored_id \<and>
   storedAccountConfig (cfg_with [(str ''default'', acct_stored_id), (str ''work'', acct_webhook)])
     (str ''work'') = Some acct_webhook \<and>
   storedAccountConfig (cfg_with [(str ''default'', acct_stored_id), (str ''work'', acct_webhook)])
     (str ''other'') = None \<and>
   (\<exists>r. resolveAccount (cfg_with [(str ''default'', acct_stored_id), (str ''work'', acct_webhook)])
        env_cli_x (str ''default'') = Some r \<and>
      appId r = str ''cli_stored'' \<and> appSecret r = str ''secret_y'' \<and> domain r = Feishu \<and>
      historyLimit r = 25 \<and> connectionMode r = Websocket \<and> webhookPort r = 3000) \<and>
   (\<exists>r. resolveAccount (cfg_with [(str ''default'', acct_stored_id), (str ''work'', acct_webhook)])
        env_cli_x (str ''work'') = Some r \<and>
      appId r = [] \<and> appSecret r = [] \<and> \<not> enabled r \<and> domain r = Lark \<and>
      historyLimit r = 10 \<and> connectionMode r = Webhook \<and> webhookPort r = 8080) \<and>
   (\<exists>r. resolveAccount (cfg_with [(str ''default'', acct_stored_id), (str ''work'', acct_webhook)])
        env_cli_x (str ''other'') = Some r \<and>
      appId r = [] \<and> enabled r \<and> historyLimit r = 10 \<and> connectionMode r = Websocket)"
proof -
  let ?cfg = "cfg_with [(str ''default'', acct_stored_id), (str ''work'', acct_webhook)]"
  have ne: "str ''work'' \<noteq> str ''default''" "str ''other'' \<noteq> str ''default''"
    "str ''other'' \<noteq> str ''work''"
    by (simp_all add: str_def)
  have sd: "storedAccountConfig ?cfg (str ''default'') = Some acct_stored_id"
    and sw: "storedAccountConfig ?cfg (str ''work'') = Some acct_webhook"
    and so: "storedAccountConfig ?cfg (str ''other'') = None"
    using ne by (simp_all add: storedAccountConfig_def cfg_with_def)
  have env: "LARK_APP_ID env_cli_x = Some (str ''cli_x'')"
    "LARK_APP_SECRET env_cli_x = Some (str ''secret_y'')"
    by (simp_all add: env_cli_x_def)
  note d = resolveAccount_precedence [of ?cfg env_cli_x "str ''default''", THEN conjunct1]
  note w = resolveAccount_precedence [of ?cfg env_cli_x "str ''work''", THEN conjunct1]
  note t = resolveAccount_precedence [of ?cfg env_cli_x "str ''other''", THEN conjunct1]
  have 1: "\<exists>r. resolveAccount ?cfg env_cli_x (str ''default'') = Some r \<and>
      appId r = str ''cli_stored'' \<and> appSecret r = str ''secret_y'' \<and> domain r = Feishu \<and>
      historyLimit r = 25 \<and> connectionMode r = Websocket \<and> webhookPort r = 3000"
    using d unfolding sd
    by (auto simp: spec_precedence_def acct_stored_id_def env)
  have 2: "\<exists>r. resolveAccount ?cfg env_cli_x (str ''work'') = Some r \<and>
      appId r = [] \<and> appSecret r = [] \<and> \<not> enabled r \<and> domain r = Lark \<and>
      historyLimit r = 10 \<and> connectionMode r = Webhook \<and> webhookPort r = 8080"
    using w ne unfolding sw
    by (auto simp: spec_precedence_def acct_webhook_def env)
  have 3: "\<exists>r. resolveAccount ?cfg env_cli_x (str ''other'') = Some r \<and>
      appId r = [] \<and> enabled r \<and> historyLimit r = 10 \<and> connectionMode r = Websocket"
    using t ne unfolding so
    by (auto simp: spec_precedence_def env)
  from sd sw so 1 2 3 show ?thesis
    by (intro conjI)
qed

section \<open>Listing the account ids\<close>

text \<open>
  C9, as stated, fails: with no stored accounts, LARK_APP_ID set to the empty string and
  LARK_APP_SECRET set to "secret_y", both variables are set and "default" is not among
  the keys, yet listAccountIds returns the empty list. hasEnvCredentials tests the
  truthiness of the two values, and the empty string is falsy.
\<close>

theorem listAccountIds_set_counterexample:
  "LARK_APP_ID env_empty_id \<noteq> None \<and> LARK_APP_SECRET env_empty_id \<noteq> None \<and>
   str ''default'' \<notin> set (map fst (nullish (accounts (getChannelConfig noStoredConfig)) [])) \<and>
   listAccountIds noStoredConfig env_empty_id = []"
  by (simp add: listAccountIds_def hasEnvCredentials_def truthy_def env_empty_id_def
      noStoredConfig_def getChannelConfig_def emptyChannelConfig_def nullish_def)

text \<open>
  C9, amended. For every configuration and environment, listAccountIds returns the keys of
  the stored accounts mapping, in their order, followed by "default" exactly when
  "default" is not among those keys and both LARK_APP_ID and LARK_APP_SECRET are set to
  non-empty strings.
\<close>

theorem listAccountIds_keys:
  "listAccountIds cfg env =
     map fst (nullish (accounts (getChannelConfig cfg)) []) @
     (if str ''default'' \<notin> set (map fst (nullish (accounts (getChannelConfig cfg)) [])) \<and>
         (\<exists>a s. LARK_APP_ID env = Some a \<and> a \<noteq> [] \<and> LARK_APP_SECRET env = Some s \<and> s \<noteq> [])
      then [str ''default''] else [])"
proof -
  have "hasEnvCredentials env \<longleftrightarrow>
      (\<exists>a s. LARK_APP_ID env = Some a \<and> a \<noteq> [] \<and> LARK_APP_SECRET env = Some s \<and> s \<noteq> [])"
    by (auto simp: hasEnvCredentials_def truthy_def split: option.splits)
  then show ?thesis
    by (simp add: listAccountIds_def Let_def)
qed

theorem listAccountIds_keys_witness:
  "listAccountIds (cfg_with [(str ''work'', emptyAccountConfig)]) env_cli_x =
     [str ''work'', str ''default''] \<and>
   listAccountIds (cfg_with [(str ''default'', emptyAccountConfig)]) env_cli_x =
     [str ''default'']"
proof -
  have k: "getChannelConfig (cfg_with accs) = \<lparr>channel_enabled = None, accounts = Some accs\<rparr>"
    for accs
    by (simp add: getChannelConfig_def cfg_with_def nullish_def)
  have e: "LARK_APP_ID env_cli_x = Some (str ''cli_x'')"
    "LARK_APP_SECRET env_cli_x = Some (str ''secret_y'')"
    by (simp_all add: env_cli_x_def)
  have ne: "str ''cli_x'' \<noteq> []" "str ''secret_y'' \<noteq> []" "str ''default'' \<noteq> str ''work''"
    by (simp_all add: str_def)
  show ?thesis
    using listAccountIds_keys [of "cfg_with [(str ''work'', emptyAccountConfig)]" env_cli_x]
      listAccountIds_keys [of "cfg_with [(str ''default'', emptyAccountConfig)]" env_cli_x]
    by (simp add: k e ne nullish_def)
qed

section \<open>Policy lookups\<close>

text \<open>
  C10. The five policy lookups (DM mode and allowlist; group mode, mention gating and
  allowlist) are functions of the stored configuration of the account "default" alone:
  each is the stored field of that account, else the hard-coded default or the empty
  list. They agree on any two configurations whose stored "default" account is the same,
  whatever the other accounts hold, and they equal the policy fields of the account
  "default" as resolved under any environment.
\<close>

theorem policy_lookups_default_only:
  "dmPolicy_mode cfg =
     nullish (dmPolicy_opt (getAccountConfig (getChannelConfig cfg) (str ''default''))) Dm_pairing \<and>
   dmPolicy_allowlist cfg =
     nullish (dmAllowlist_opt (getAccountConfig (getChannelConfig cfg) (str ''default''))) [] \<and>
   groupPolicy_mode cfg =
     nullish (groupPolicy_opt (getAccountConfig (getChannelConfig cfg) (str ''default''))) Group_open \<and>
   groupPolicy_mentionGated cfg =
     nullish (groupMentionGated_opt (getAccountConfig (getChannelConfig cfg) (str ''default''))) True \<and>
   groupPolicy_allowlist cfg =
     nullish (groupAllowlist_opt (getAccountConfig (getChannelConfig cfg) (str ''default''))) [] \<and>
   (\<forall>cfg'. getAccountConfig (getChannelConfig cfg') (str ''default'') =
        getAccountConfig (getChannelConfig cfg) (str ''default'') \<longrightarrow>
      dmPolicy_mode cfg' = dmPolicy_mode cfg \<and> dmPolicy_allowlist cfg' = dmPolicy_allowlist cfg \<and>
      groupPolicy_mode cfg' = groupPolicy_mode cfg \<and>
      groupPolicy_mentionGated cfg' = groupPolicy_mentionGated cfg \<and>
      groupPolicy_allowlist cfg' = groupPolicy_allowlist cfg) \<and>
   (\<forall>env. \<exists>r. resolveAccount cfg env (str ''default'') = Some r \<and>
      dmPolicy_mode cfg = dmPolicy r \<and> dmPolicy_allowlist cfg = dmAllowlist r \<and>
      groupPolicy_mode cfg = groupPolicy r \<and> groupPolicy_mentionGated cfg = groupMentionGated r \<and>
      groupPolicy_allowlist cfg = groupAllowlist r)"
proof -
  have look: "nullish (Option.bind (defaultAccountConfig (getChannelConfig c)) f) d =
      nullish (f (getAccountConfig (getChannelConfig c) (str ''default''))) d"
    if "f emptyAccountConfig = None" for c d and f :: "LarkAccountConfig \<Rightarrow> 'a option"
    using that
    by (simp add: defaultAccountConfig_def getAccountConfig_def nullish_def
        split: option.splits)
  have 1: "dmPolicy_mode c =
      nullish (dmPolicy_opt (getAccountConfig (getChannelConfig c) (str ''default''))) Dm_pairing"
    for c
    by (simp add: dmPolicy_mode_def DEFAULTS_defs look emptyAccountConfig_def)
  have 2: "dmPolicy_allowlist c =
      nullish (dmAllowlist_opt (getAccountConfig (getChannelConfig c) (str ''default''))) []"
    for c
    by (simp add: dmPolicy_allowlist_def look emptyAccountConfig_def)
  have 3: "groupPolicy_mode c =
      nullish (groupPolicy_opt (getAccountConfig (getChannelConfig c) (str ''default''))) Group_open"
    for c
    by (simp add: groupPolicy_mode_def DEFAULTS_defs look emptyAccountConfig_def)
  have 4: "groupPolicy_mentionGated c =
      nullish (groupMentionGated_opt (getAccountConfig (getChannelConfig c) (str ''default''))) True"
    for c
    by (simp add: groupPolicy_mentionGated_def DEFAULTS_defs look emptyAccountConfig_def)
  have 5: "groupPolicy_allowlist c =
      nullish (groupAllowlist_opt (getAccountConfig (getChannelConfig c) (str ''default''))) []"
    for c
    by (simp add: groupPolicy_allowlist_def look emptyAccountConfig_def)
  have 6: "\<exists>r. resolveAccount cfg env (str ''default'') = Some r \<and>
      dmPolicy_mode cfg = dmPolicy r \<and> dmPolicy_allowlist cfg = dmAllowlist r \<and>
      groupPolicy_mode cfg = groupPolicy r \<and> groupPolicy_mentionGated cfg = groupMentionGated r \<and>
      groupPolicy_allowlist cfg = groupAllowlist r" for env
    by (simp add: resolveAccount_def Let_def 1 2 3 4 5 DEFAULTS_defs)
  show ?thesis
    using 6 by (simp add: 1 2 3 4 5)
qed

theorem policy_lookups_default_only_witness:
  "getAccountConfig (getChannelConfig (cfg_with
       [(str ''work'', emptyAccountConfig\<lparr>dmPolicy_opt := Some Dm_open\<rparr>),
        (str ''default'', emptyAccountConfig\<lparr>groupPolicy_opt := Some Group_disabled\<rparr>)]))
     (str ''default'') =
   getAccountConfig (getChannelConfig (cfg_with
       [(str ''default'', emptyAccountConfig\<lparr>groupPolicy_opt := Some Group_disabled\<rparr>)]))
     (str ''default'') \<and>
   dmPolicy_mode (cfg_with
       [(str ''work'', emptyAccountConfig\<lparr>dmPolicy_opt := Some Dm_open\<rparr>),
        (str ''default'', emptyAccountConfig\<lparr>groupPolicy_opt := Some Group_disabled\<rparr>)]) =
     Dm_pairing \<and>
   groupPolicy_mode (cfg_with
       [(str ''work'', emptyAccountConfig\<lparr>dmPolicy_opt := Some Dm_open\<rparr>),
        (str ''default'', emptyAccountConfig\<lparr>groupPolicy_opt := Some Group_disabled\<rparr>)]) =
     Group_disabled"
proof -
  let ?c1 = "cfg_with
       [(str ''work'', emptyAccountConfig\<lparr>dmPolicy_opt := Some Dm_open\<rparr>),
        (str ''default'', emptyAccountConfig\<lparr>groupPolicy_opt := Some Group_disabled\<rparr>)]"
  let ?c2 = "cfg_with
       [(str ''default'', emptyAccountConfig\<lparr>groupPolicy_opt := Some Group_disabled\<rparr>)]"
  have ne: "str ''default'' \<noteq> str ''work''"
    by (simp add: str_def)
  have same: "getAccountConfig (getChannelConfig ?c1) (str ''default'') =
      getAccountConfig (getChannelConfig ?c2) (str ''default'')"
    using ne by (simp add: getAccountConfig_def getChannelConfig_def cfg_with_def nullish_def)
  have c2: "getAccountConfig (getChannelConfig ?c2) (str ''default'') =
      emptyAccountConfig\<lparr>groupPolicy_opt := Some Group_disabled\<rparr>"
    by (simp add: getAccountConfig_def getChannelConfig_def cfg_with_def nullish_def)
  from policy_lookups_default_only [of ?c2] same
  have "dmPolicy_mode ?c1 = dmPolicy_mode ?c2" "groupPolicy_mode ?c1 = groupPolicy_mode ?c2"
    by blast+
  moreover have "dmPolicy_mode ?c2 =
      nullish (dmPolicy_opt (getAccountConfig (getChannelConfig ?c2) (str ''default''))) Dm_pairing"
    "groupPolicy_mode ?c2 =
      nullish (groupPolicy_opt (getAccountConfig (getChannelConfig ?c2) (str ''default''))) Group_open"
    using policy_lookups_default_only [of ?c2] by blast+
  then have "dmPolicy_mode ?c2 = Dm_pairing" "groupPolicy_mode ?c2 = Group_disabled"
    unfolding c2 by (simp_all add: emptyAccountConfig_def nullish_def)
  ultimately show ?thesis using same by simp
qed

section \<open>The client cache\<close>

lemma validateCredentials_throws_iff:
  "(\<exists>e. validateCredentials a = Inl e) \<longleftrightarrow> appId a = [] \<or> appSecret a = []"
  by (simp add: validateCredentials_def)

lemma validateCredentials_ok:
  "appId a \<noteq> [] \<Longrightarrow> appSecret a \<noteq> [] \<Longrightarrow> validateCredentials a = Inr ()"
  by (simp add: validateCredentials_def)

lemma createLarkClient_hit:
  "appId a \<noteq> [] \<Longrightarrow> appSecret a \<noteq> [] \<Longrightarrow> clientCache s (cacheKey a) = Some c \<Longrightarrow>
   createLarkClient a s = (Inr c, s)"
  by (simp add: createLarkClient_def validateCredentials_ok)

lemma createLarkClient_miss:
  "appId a \<noteq> [] \<Longrightarrow> appSecret a \<noteq> [] \<Longrightarrow> clientCache s (cacheKey a) = None \<Longrightarrow>
   createLarkClient a s =
     (Inr \<lparr>client_ref = next_ref s, client_appId = appId a, client_appSecret = appSecret a,
           client_domain = toLarkDomain (domain a)\<rparr>,
      s\<lparr>clientCache := (clientCache s)(cacheKey a \<mapsto>
           \<lparr>client_ref = next_ref s, client_appId = appId a, client_appSecret = appSecret a,
            client_domain = toLarkDomain (domain a)\<rparr>),
        next_ref := Suc (next_ref s)\<rparr>)"
  by (simp add: createLarkClient_def validateCredentials_ok Let_def)

lemma createLarkClient_throws:
  "appId a = [] \<or> appSecret a = [] \<Longrightarrow>
   createLarkClient a s = (Inl (Error (str ''Lark appId and appSecret are required'')), s)"
  by (auto simp: createLarkClient_def validateCredentials_def)

lemma createLarkClient_cached:
  "createLarkClient a s = (Inr c, s') \<Longrightarrow> clientCache s' (cacheKey a) = Some c"
  by (auto simp: createLarkClient_def Let_def split: sum.splits option.splits)

lemma createLarkClient_keeps:
  "clientCache s k = Some c \<Longrightarrow> clientCache (snd (createLarkClient a s)) k = Some c"
  by (auto simp: createLarkClient_def Let_def split: sum.splits option.splits)

lemma create_all_keeps:
  "clientCache s k = Some c \<Longrightarrow> clientCache (create_all as s) k = Some c"
  by (induction as arbitrary: s) (simp_all add: createLarkClient_keeps)

lemma cache_inv_insert:
  assumes "cache_inv s" and "clientCache s key = None"
  shows "cache_inv (s\<lparr>clientCache := (clientCache s)(key \<mapsto>
           \<lparr>client_ref = next_ref s, client_appId = i, client_appSecret = k,
            client_domain = d\<rparr>),
        next_ref := Suc (next_ref s)\<rparr>)"
proof -
  have old: "client_ref c < next_ref s" if "clientCache s k' = Some c" for k' c
    using assms(1) that unfolding cache_inv_def by blast
  have inj: "k1 = k2" if "clientCache s k1 = Some c" "clientCache s k2 = Some c'"
    "client_ref c = client_ref c'" for k1 k2 c c'
    using assms(1) that unfolding cache_inv_def by blast
  show ?thesis
    unfolding cache_inv_def
  proof (intro conjI allI impI)
    fix k' c
    assume "clientCache (s\<lparr>clientCache := (clientCache s)(key \<mapsto>
           \<lparr>client_ref = next_ref s, client_appId = i, client_appSecret = k,
            client_domain = d\<rparr>),
        next_ref := Suc (next_ref s)\<rparr>) k' = Some c"
    then show "client_ref c < next_ref (s\<lparr>clientCache := (clientCache s)(key \<mapsto>
           \<lparr>client_ref = next_ref s, client_appId = i, client_appSecret = k,
            client_domain = d\<rparr>),
        next_ref := Suc (next_ref s)\<rparr>)"
      using old [of k' c] by (auto split: if_splits simp: less_Suc_eq)
  next
    fix k1 k2 c c'
    assume "clientCache (s\<lparr>clientCache := (clientCache s)(key \<mapsto>
           \<lparr>client_ref = next_ref s, client_appId = i, client_appSecret = k,
            client_domain = d\<rparr>),
        next_ref := Suc (next_ref s)\<rparr>) k1 = Some c \<and>
      clientCache (s\<lparr>clientCache := (clientCache s)(key \<mapsto>
           \<lparr>client_ref = next_ref s, client_appId = i, client_appSecret = k,
            client_domain = d\<rparr>),
        next_ref := Suc (next_ref s)\<rparr>) k2 = Some c' \<and> client_ref c = client_ref c'"
    then show "k1 = k2"
      using old [of k1 c] old [of k2 c'] inj [of k1 c k2 c']
      by (auto split: if_splits)
  qed
qed

lemma cache_inv_create: "cache_inv s \<Longrightarrow> cache_inv (snd (createLarkClient a s))"
  by (auto simp: createLarkClient_def Let_def cache_inv_insert split: sum.splits option.splits)

lemma cache_inv_create_ws: "cache_inv s \<Longrightarrow> cache_inv (snd (createLarkWSClient a s))"
  unfolding cache_inv_def createLarkWSClient_def
  by (auto split: sum.splits simp: less_Suc_eq)

lemma reachable_inv: "reachable s \<Longrightarrow> cache_inv s"
proof (induction rule: reachable.induct)
  case initial
  show ?case by (simp add: cache_inv_def initial_client_state_def)
next
  case (clear s)
  then show ?case by (simp add: cache_inv_def clearClientCache_def)
qed (simp_all add: cache_inv_create cache_inv_create_ws)

lemma reachable_create_all: "reachable s \<Longrightarrow> reachable (create_all as s)"
  by (induction as arbitrary: s) (simp_all add: reachable.create)

lemma domain_string_inject: "domain_string d = domain_string d' \<longleftrightarrow> d = d'"
  by (cases d; cases d') (simp_all add: str_def)

lemma cacheKey_one_differs:
  "(appId b \<noteq> appId a \<and> appSecret b = appSecret a \<and> domain b = domain a) \<or>
   (appId b = appId a \<and> appSecret b \<noteq> appSecret a \<and> domain b = domain a) \<or>
   (appId b = appId a \<and> appSecret b = appSecret a \<and> domain b \<noteq> domain a) \<Longrightarrow>
   cacheKey b \<noteq> cacheKey a"
  by (auto simp: cacheKey_def domain_string_inject)

lemma cacheKey_same:
  "appId b = appId a \<Longrightarrow> appSecret b = appSecret a \<Longrightarrow> domain b = domain a \<Longrightarrow>
   cacheKey b = cacheKey a"
  by (simp add: cacheKey_def)

text \<open>
  C7. In a reachable state, let an account with non-empty credentials obtain its client.
  Then every account with the same app identifier, app secret and domain obtains the same
  instance, also after any further calls of createLarkClient; every account that differs
  in exactly one of the three components obtains a different instance; and after
  clearClientCache the same account obtains an instance that is new: it differs from the
  earlier one and from every client that was cached.
\<close>

theorem client_cache_algebra:
  assumes "reachable s" and "appId a \<noteq> []" and "appSecret a \<noteq> []"
  shows "\<exists>c s1. createLarkClient a s = (Inr c, s1) \<and>
      (\<forall>as b. appId b = appId a \<and> appSecret b = appSecret a \<and> domain b = domain a \<longrightarrow>
         createLarkClient b (create_all as s1) = (Inr c, create_all as s1)) \<and>
      (\<forall>as b. appId b \<noteq> [] \<and> appSecret b \<noteq> [] \<and>
         ((appId b \<noteq> appId a \<and> appSecret b = appSecret a \<and> domain b = domain a) \<or>
          (appId b = appId a \<and> appSecret b \<noteq> appSecret a \<and> domain b = domain a) \<or>
          (appId b = appId a \<and> appSecret b = appSecret a \<and> domain b \<noteq> domain a)) \<longrightarrow>
         (\<exists>c' s2. createLarkClient b (create_all as s1) = (Inr c', s2) \<and>
            client_ref c' \<noteq> client_ref c)) \<and>
      (\<exists>c' s2. createLarkClient a (clearClientCache s1) = (Inr c', s2) \<and>
         client_ref c' = next_ref s1 \<and> client_ref c' \<noteq> client_ref c \<and>
         (\<forall>k c0. clientCache s1 k = Some c0 \<longrightarrow> client_ref c0 \<noteq> client_ref c'))"
proof -
  obtain c s1 where first: "createLarkClient a s = (Inr c, s1)"
    using assms(2,3) createLarkClient_hit [of a s] createLarkClient_miss [of a s]
    by (cases "clientCache s (cacheKey a)") auto
  have s1: "s1 = snd (createLarkClient a s)"
    using first by simp
  have r1: "reachable s1"
    unfolding s1 using assms(1) by (rule reachable.create)
  have cached: "clientCache s1 (cacheKey a) = Some c"
    using first by (rule createLarkClient_cached)
  have later: "clientCache (create_all as s1) (cacheKey a) = Some c" for as
    using cached by (rule create_all_keeps)
  have same: "createLarkClient b (create_all as s1) = (Inr c, create_all as s1)"
    if "appId b = appId a \<and> appSecret b = appSecret a \<and> domain b = domain a" for as b
  proof -
    have "cacheKey b = cacheKey a"
      using that by (intro cacheKey_same) simp_all
    with later [of as] have "clientCache (create_all as s1) (cacheKey b) = Some c"
      by simp
    moreover have "appId b \<noteq> []" "appSecret b \<noteq> []"
      using that assms(2,3) by simp_all
    ultimately show ?thesis
      by (simp add: createLarkClient_hit)
  qed
  have other: "\<exists>c' s2. createLarkClient b (create_all as s1) = (Inr c', s2) \<and>
            client_ref c' \<noteq> client_ref c"
    if b: "appId b \<noteq> [] \<and> appSecret b \<noteq> [] \<and>
         ((appId b \<noteq> appId a \<and> appSecret b = appSecret a \<and> domain b = domain a) \<or>
          (appId b = appId a \<and> appSecret b \<noteq> appSecret a \<and> domain b = domain a) \<or>
          (appId b = appId a \<and> appSecret b = appSecret a \<and> domain b \<noteq> domain a))" for as b
  proof -
    let ?t = "create_all as s1"
    have key: "cacheKey b \<noteq> cacheKey a"
      using b cacheKey_one_differs [of b a] by blast
    have inv: "cache_inv ?t"
      using r1 by (intro reachable_inv reachable_create_all)
    show ?thesis
    proof (cases "clientCache ?t (cacheKey b)")
      case None
      have "client_ref c < next_ref ?t"
        using inv later [of as] unfolding cache_inv_def by blast
      then show ?thesis
        using b None by (simp add: createLarkClient_miss)
    next
      case (Some c')
      have "client_ref c' \<noteq> client_ref c"
        using inv Some later [of as] key unfolding cache_inv_def by blast
      then show ?thesis
        using b Some by (simp add: createLarkClient_hit)
    qed
  qed
  have inv1: "cache_inv s1"
    using r1 by (rule reachable_inv)
  have old: "client_ref c0 < next_ref s1" if "clientCache s1 k = Some c0" for k c0
    using inv1 that unfolding cache_inv_def by blast
  have fresh: "\<exists>c' s2. createLarkClient a (clearClientCache s1) = (Inr c', s2) \<and>
         client_ref c' = next_ref s1 \<and> client_ref c' \<noteq> client_ref c \<and>
         (\<forall>k c0. clientCache s1 k = Some c0 \<longrightarrow> client_ref c0 \<noteq> client_ref c')"
  proof -
    have "clientCache (clearClientCache s1) (cacheKey a) = None"
      "next_ref (clearClientCache s1) = next_ref s1"
      by (simp_all add: clearClientCache_def)
    then have "createLarkClient a (clearClientCache s1) =
        (Inr \<lparr>client_ref = next_ref s1, client_appId = appId a, client_appSecret = appSecret a,
           client_domain = toLarkDomain (domain a)\<rparr>,
         clearClientCache s1\<lparr>clientCache := (clientCache (clearClientCache s1))(cacheKey a \<mapsto>
           \<lparr>client_ref = next_ref s1, client_appId = appId a, client_appSecret = appSecret a,
            client_domain = toLarkDomain (domain a)\<rparr>),
           next_ref := Suc (next_ref s1)\<rparr>)"
      using assms(2,3) by (simp add: createLarkClient_miss)
    moreover have "next_ref s1 \<noteq> client_ref c"
      using old [OF cached] by simp
    moreover have "\<forall>k c0. clientCache s1 k = Some c0 \<longrightarrow> client_ref c0 \<noteq> next_ref s1"
      using old by fastforce
    ultimately show ?thesis
      by simp
  qed
  have same': "\<forall>as b. appId b = appId a \<and> appSecret b = appSecret a \<and> domain b = domain a \<longrightarrow>
         createLarkClient b (create_all as s1) = (Inr c, create_all as s1)"
    using same by blast
  have other': "\<forall>as b. appId b \<noteq> [] \<and> appSecret b \<noteq> [] \<and>
         ((appId b \<noteq> appId a \<and> appSecret b = appSecret a \<and> domain b = domain a) \<or>
          (appId b = appId a \<and> appSecret b \<noteq> appSecret a \<and> domain b = domain a) \<or>
          (appId b = appId a \<and> appSecret b = appSecret a \<and> domain b \<noteq> domain a)) \<longrightarrow>
         (\<exists>c' s2. createLarkClient b (create_all as s1) = (Inr c', s2) \<and>
            client_ref c' \<noteq> client_ref c)"
    using other by blast
  show ?thesis
    apply (rule exI [of _ c], rule exI [of _ s1])
    apply (rule conjI, rule first)
    apply (rule conjI, rule same')
    apply (rule conjI, rule other')
    apply (rule fresh)
    done
qed

theorem client_cache_algebra_witness:
  "reachable initial_client_state \<and>
   appId (account_of (str ''cli_x'') (str ''secret_y'') Lark) \<noteq> [] \<and>
   appSecret (account_of (str ''cli_x'') (str ''secret_y'') Lark) \<noteq> [] \<and>
   (\<exists>c s1. createLarkClient (account_of (str ''cli_x'') (str ''secret_y'') Lark)
        initial_client_state = (Inr c, s1) \<and>
      createLarkClient ((account_of (str ''cli_x'') (str ''secret_y'') Lark)\<lparr>accountId := str ''work''\<rparr>)
        s1 = (Inr c, s1) \<and>
      (\<exists>c' s2. createLarkClient (account_of (str ''cli_x'') (str ''secret_y'') Feishu) s1 =
         (Inr c', s2) \<and> client_ref c' \<noteq> client_ref c) \<and>
      (\<exists>c' s2. createLarkClient (account_of (str ''cli_x'') (str ''secret_y'') Lark)
         (clearClientCache s1) = (Inr c', s2) \<and> client_ref c' \<noteq> client_ref c))"
proof -
  let ?a = "account_of (str ''cli_x'') (str ''secret_y'') Lark"
  let ?b = "?a\<lparr>accountId := str ''work''\<rparr>"
  let ?f = "account_of (str ''cli_x'') (str ''secret_y'') Feishu"
  have h: "reachable initial_client_state"
    by (rule reachable.initial)
  have ne: "appId ?a \<noteq> []" "appSecret ?a \<noteq> []"
    by (simp_all add: account_of_def str_def)
  have b: "appId ?b = appId ?a \<and> appSecret ?b = appSecret ?a \<and> domain ?b = domain ?a"
    by simp
  have f: "appId ?f \<noteq> [] \<and> appSecret ?f \<noteq> [] \<and>
         ((appId ?f \<noteq> appId ?a \<and> appSecret ?f = appSecret ?a \<and> domain ?f = domain ?a) \<or>
          (appId ?f = appId ?a \<and> appSecret ?f \<noteq> appSecret ?a \<and> domain ?f = domain ?a) \<or>
          (appId ?f = appId ?a \<and> appSecret ?f = appSecret ?a \<and> domain ?f \<noteq> domain ?a))"
    by (simp add: account_of_def str_def)
  from client_cache_algebra [OF h ne] obtain c s1 where
    1: "createLarkClient ?a initial_client_state = (Inr c, s1)" and
    2: "\<forall>as b. appId b = appId ?a \<and> appSecret b = appSecret ?a \<and> domain b = domain ?a \<longrightarrow>
         createLarkClient b (create_all as s1) = (Inr c, create_all as s1)" and
    3: "\<forall>as b. appId b \<noteq> [] \<and> appSecret b \<noteq> [] \<and>
         ((appId b \<noteq> appId ?a \<and> appSecret b = appSecret ?a \<and> domain b = domain ?a) \<or>
          (appId b = appId ?a \<and> appSecret b \<noteq> appSecret ?a \<and> domain b = domain ?a) \<or>
          (appId b = appId ?a \<and> appSecret b = appSecret ?a \<and> domain b \<noteq> domain ?a)) \<longrightarrow>
         (\<exists>c' s2. createLarkClient b (create_all as s1) = (Inr c', s2) \<and>
            client_ref c' \<noteq> client_ref c)" and
    4: "\<exists>c' s2. createLarkClient ?a (clearClientCache s1) = (Inr c', s2) \<and>
         client_ref c' = next_ref s1 \<and> client_ref c' \<noteq> client_ref c \<and>
         (\<forall>k c0. clientCache s1 k = Some c0 \<longrightarrow> client_ref c0 \<noteq> client_ref c')"
    by blast
  have i2: "createLarkClient ?b s1 = (Inr c, s1)"
    using 2 [rule_format, of ?b "[]", OF b] by simp
  have i3: "\<exists>c' s2. createLarkClient ?f s1 = (Inr c', s2) \<and> client_ref c' \<noteq> client_ref c"
    using 3 [rule_format, of ?f "[]", OF f] by simp
  have i4: "\<exists>c' s2. createLarkClient ?a (clearClientCache s1) = (Inr c', s2) \<and>
      client_ref c' \<noteq> client_ref c"
    using 4 by blast
  show ?thesis
    apply (intro conjI h ne)
    apply (rule exI [of _ c], rule exI [of _ s1])
    apply (intro conjI 1 i2 i3 i4)
    done
qed

text \<open>
  C3 at the failing input. An account whose app identifier is a single space resolves to
  "not configured", since the identifier is empty after trimming. validateCredentials
  tests the untrimmed strings, so createLarkClient does not throw: it builds a client
  and caches it under the key " :s:lark", and createLarkWSClient returns a fresh socket
  client as well.
\<close>

theorem createLarkClient_blank_appId:
  "resolveAccount
     (cfg_with [(str ''default'',
        emptyAccountConfig\<lparr>appId_opt := Some (str '' ''), appSecret_opt := Some (str ''s'')\<rparr>)])
     env_unset (str ''default'') = Some (account_of (str '' '') (str ''s'') Lark) \<and>
   trim (appId (account_of (str '' '') (str ''s'') Lark)) = [] \<and>
   \<not> configured (account_of (str '' '') (str ''s'') Lark) \<and>
   fst (createLarkClient (account_of (str '' '') (str ''s'') Lark) initial_client_state) =
     Inr \<lparr>client_ref = 0, client_appId = str '' '', client_appSecret = str ''s'',
          client_domain = Domain_Lark\<rparr> \<and>
   clientCache (snd (createLarkClient (account_of (str '' '') (str ''s'') Lark)
       initial_client_state)) (str '' :s:lark'') =
     Some \<lparr>client_ref = 0, client_appId = str '' '', client_appSecret = str ''s'',
          client_domain = Domain_Lark\<rparr> \<and>
   fst (createLarkWSClient (account_of (str '' '') (str ''s'') Lark) initial_client_state) =
     Inr \<lparr>ws_ref = 0, ws_appId = str '' '', ws_appSecret = str ''s'', ws_domain = Domain_Lark\<rparr>"
proof -
  have t: "trim (str '' '') = []" "trim (str ''s'') \<noteq> []"
    by (simp_all add: trim_def str_def isWhiteSpace_def)
  have r: "resolveAccount
     (cfg_with [(str ''default'',
        emptyAccountConfig\<lparr>appId_opt := Some (str '' ''), appSecret_opt := Some (str ''s'')\<rparr>)])
     env_unset (str ''default'') = Some (account_of (str '' '') (str ''s'') Lark)"
    by (simp add: resolveAccount_def Let_def cfg_with_def env_unset_def account_of_def
        getChannelConfig_def getAccountConfig_def emptyAccountConfig_def nullish_def
        nullish_opt_def truthy_def t DEFAULTS_defs)
  have a: "appId (account_of (str '' '') (str ''s'') Lark) = str '' ''"
    "appSecret (account_of (str '' '') (str ''s'') Lark) = str ''s''"
    "domain (account_of (str '' '') (str ''s'') Lark) = Lark"
    "configured (account_of (str '' '') (str ''s'') Lark) \<longleftrightarrow> False"
    by (simp_all add: account_of_def t)
  have sne: "str '' '' \<noteq> []" "str ''s'' \<noteq> []"
    by (simp_all add: str_def)
  have v: "validateCredentials (account_of (str '' '') (str ''s'') Lark) = Inr ()"
    by (simp add: validateCredentials_def a sne)
  have "str '' '' @ str '':'' @ str ''s'' @ str '':'' @ str ''lark'' = str '' :s:lark''"
    by (simp add: str_def)
  then have k: "cacheKey (account_of (str '' '') (str ''s'') Lark) = str '' :s:lark''"
    by (simp add: cacheKey_def a)
  have c: "createLarkClient (account_of (str '' '') (str ''s'') Lark) initial_client_state =
      (Inr \<lparr>client_ref = 0, client_appId = str '' '', client_appSecret = str ''s'',
          client_domain = Domain_Lark\<rparr>,
       \<lparr>clientCache = [str '' :s:lark'' \<mapsto>
          \<lparr>client_ref = 0, client_appId = str '' '', client_appSecret = str ''s'',
          client_domain = Domain_Lark\<rparr>], next_ref = Suc 0\<rparr>)"
    by (simp add: createLarkClient_def Let_def v k a initial_client_state_def toLarkDomain_def)
  have w: "createLarkWSClient (account_of (str '' '') (str ''s'') Lark) initial_client_state =
      (Inr \<lparr>ws_ref = 0, ws_appId = str '' '', ws_appSecret = str ''s'',
          ws_domain = Domain_Lark\<rparr>,
       \<lparr>clientCache = Map.empty, next_ref = Suc 0\<rparr>)"
    by (simp add: createLarkWSClient_def v a initial_client_state_def toLarkDomain_def)
  show ?thesis
    by (simp add: r a t c w)
qed

lemma createLarkClient_throws_iff:
  "(\<exists>e. fst (createLarkClient a s) = Inl e) \<longleftrightarrow> appId a = [] \<or> appSecret a = []"
  by (auto simp: createLarkClient_def validateCredentials_def Let_def split: option.splits)

lemma createLarkWSClient_throws_iff:
  "(\<exists>e. fst (createLarkWSClient a s) = Inl e) \<longleftrightarrow> appId a = [] \<or> appSecret a = []"
  by (auto simp: createLarkWSClient_def validateCredentials_def)

lemma createLarkClient_throw_no_entry:
  "fst (createLarkClient a s) = Inl e \<Longrightarrow> snd (createLarkClient a s) = s"
  by (auto simp: createLarkClient_def Let_def split: sum.splits option.splits)

lemma createLarkWSClient_throw_no_entry:
  "fst (createLarkWSClient a s) = Inl e \<Longrightarrow> snd (createLarkWSClient a s) = s"
  by (auto simp: createLarkWSClient_def split: sum.splits)

section \<open>The outbound sender\<close>

lemma createLarkClient_Inl:
  "createLarkClient a s = (Inl e, s') \<Longrightarrow>
   e = Error (str ''Lark appId and appSecret are required'') \<and> s' = s"
  by (auto simp: createLarkClient_def validateCredentials_def Let_def
      split: if_splits option.splits)

text \<open>
  C6. sendTextMessage never lets an exception out: for every vendor API, account,
  recipient, text and thread id it returns a SendResult (and leaves the client cache as
  createLarkClient left it). The result is a success exactly when the client could be
  built and the API resolved with code 0 and a payload, and then it carries the message id
  of the payload and no error. Otherwise it is a failure without a message id whose error
  is the provider's message text, "Unknown error" when that is absent or when the thrown
  value is not an Error, or the message of the caught Error. No result has ok with an
  error, or a failure with a message id.
\<close>

theorem sendTextMessage_result:
  "\<exists>r. sendTextMessage api a rid txt tid s = (Inr r, snd (createLarkClient a s)) \<and>
     (ok r \<longleftrightarrow> (\<exists>c resp d. fst (createLarkClient a s) = Inr c \<and>
        api c (createRequest rid txt tid) = Resolves resp \<and> code resp = Some 0 \<and>
        data resp = Some d)) \<and>
     (\<forall>c resp d. fst (createLarkClient a s) = Inr c \<and>
        api c (createRequest rid txt tid) = Resolves resp \<and> code resp = Some 0 \<and>
        data resp = Some d \<longrightarrow>
        r = \<lparr>ok = True, messageId = data_message_id d, error = None\<rparr>) \<and>
     (\<forall>c resp. fst (createLarkClient a s) = Inr c \<and>
        api c (createRequest rid txt tid) = Resolves resp \<and>
        \<not> (code resp = Some 0 \<and> data resp \<noteq> None) \<longrightarrow>
        r = \<lparr>ok = False, messageId = None,
             error = Some (case msg resp of Some m \<Rightarrow> m | None \<Rightarrow> str ''Unknown error'')\<rparr>) \<and>
     (\<forall>c m. fst (createLarkClient a s) = Inr c \<and>
        api c (createRequest rid txt tid) = Rejects (Error m) \<longrightarrow>
        r = \<lparr>ok = False, messageId = None, error = Some m\<rparr>) \<and>
     (\<forall>c. fst (createLarkClient a s) = Inr c \<and>
        api c (createRequest rid txt tid) = Rejects NonError \<longrightarrow>
        r = \<lparr>ok = False, messageId = None, error = Some (str ''Unknown error'')\<rparr>) \<and>
     (\<forall>e. fst (createLarkClient a s) = Inl e \<longrightarrow>
        r = \<lparr>ok = False, messageId = None,
             error = Some (str ''Lark appId and appSecret are required'')\<rparr>) \<and>
     \<not> (ok r \<and> error r \<noteq> None) \<and> \<not> (\<not> ok r \<and> messageId r \<noteq> None)"
proof -
  obtain x s' where cl: "createLarkClient a s = (x, s')"
    by (cases "createLarkClient a s")
  show ?thesis
  proof (cases x)
    case (Inl e)
    with cl have "e = Error (str ''Lark appId and appSecret are required'')"
      using createLarkClient_Inl by blast
    with cl Inl show ?thesis
      by (simp add: sendTextMessage_def sendTextMessage_try_def)
  next
    case (Inr c)
    show ?thesis
    proof (cases "api c (createRequest rid txt tid)")
      case (Rejects e)
      with cl Inr show ?thesis
        by (cases e) (simp_all add: sendTextMessage_def sendTextMessage_try_def)
    next
      case (Resolves resp)
      show ?thesis
      proof (cases "code resp = Some 0 \<and> data resp \<noteq> None")
        case True
        then obtain d where "data resp = Some d" by auto
        with True cl Inr Resolves show ?thesis
          by (simp add: sendTextMessage_def sendTextMessage_try_def)
      next
        case False
        with cl Inr Resolves show ?thesis
          by (auto simp: sendTextMessage_def sendTextMessage_try_def nullish_def)
      qed
    qed
  qed
qed

theorem sendTextMessage_result_witness:
  "sendTextMessage api_accepts (account_of (str ''cli_x'') (str ''secret_y'') Lark)
     (str ''oc_1'') (str ''hi'') None initial_client_state =
     (Inr \<lparr>ok = True, messageId = Some (str ''om_1''), error = None\<rparr>,
      snd (createLarkClient (account_of (str ''cli_x'') (str ''secret_y'') Lark)
        initial_client_state)) \<and>
   sendTextMessage api_accepts (account_of [] (str ''secret_y'') Lark)
     (str ''oc_1'') (str ''hi'') None initial_client_state =
     (Inr \<lparr>ok = False, messageId = None,
        error = Some (str ''Lark appId and appSecret are required'')\<rparr>,
      initial_client_state)"
proof -
  let ?a = "account_of (str ''cli_x'') (str ''secret_y'') Lark"
  let ?e = "account_of [] (str ''secret_y'') Lark"
  let ?req = "createRequest (str ''oc_1'') (str ''hi'') None"
  have ne: "appId ?a \<noteq> []" "appSecret ?a \<noteq> []"
    by (simp_all add: account_of_def str_def)
  obtain c where c: "fst (createLarkClient ?a initial_client_state) = Inr c"
    using createLarkClient_throws_iff [of ?a initial_client_state] ne
    by (cases "fst (createLarkClient ?a initial_client_state)") auto
  have acc: "api_accepts c ?req = Resolves \<lparr>code = Some 0, msg = Some (str ''success''),
       data = Some \<lparr>data_message_id = Some (str ''om_1'')\<rparr>\<rparr>"
    by (simp add: api_accepts_def)
  obtain r where r: "sendTextMessage api_accepts ?a (str ''oc_1'') (str ''hi'') None
        initial_client_state = (Inr r, snd (createLarkClient ?a initial_client_state))"
    and ok: "\<forall>c resp d. fst (createLarkClient ?a initial_client_state) = Inr c \<and>
        api_accepts c ?req = Resolves resp \<and> code resp = Some 0 \<and> data resp = Some d \<longrightarrow>
        r = \<lparr>ok = True, messageId = data_message_id d, error = None\<rparr>"
    using sendTextMessage_result [of api_accepts ?a "str ''oc_1''" "str ''hi''" None
        initial_client_state]
    by blast
  have 1: "r = \<lparr>ok = True, messageId = Some (str ''om_1''), error = None\<rparr>"
    using ok [rule_format, of c _ "\<lparr>data_message_id = Some (str ''om_1'')\<rparr>"] c acc
    by simp
  have thr: "createLarkClient ?e initial_client_state =
      (Inl (Error (str ''Lark appId and appSecret are required'')), initial_client_state)"
    by (rule createLarkClient_throws) (simp add: account_of_def)
  obtain r' where r': "sendTextMessage api_accepts ?e (str ''oc_1'') (str ''hi'') None
        initial_client_state = (Inr r', snd (createLarkClient ?e initial_client_state))"
    and bad: "\<forall>e. fst (createLarkClient ?e initial_client_state) = Inl e \<longrightarrow>
        r' = \<lparr>ok = False, messageId = None,
             error = Some (str ''Lark appId and appSecret are required'')\<rparr>"
    using sendTextMessage_result [of api_accepts ?e "str ''oc_1''" "str ''hi''" None
        initial_client_state]
    by blast
  have 2: "r' = \<lparr>ok = False, messageId = None,
             error = Some (str ''Lark appId and appSecret are required'')\<rparr>"
    using bad thr by simp
  show ?thesis
    using r r' thr by (simp add: 1 2)
qed

section \<open>Stopping the monitor\<close>

text \<open>
  C8, as stated, fails: with a socket client and a webhook server active and a stop
  operation that throws, stopMonitor calls stop and the error leaves the function before
  the slot of the server is reset: the server stays in its slot.
\<close>

theorem stopMonitor_stop_throws_counterexample:
  "stopMonitor stop_throws
     \<lparr>activeWsClient = Some \<lparr>ws_ref = 3, ws_appId = str ''cli_x'', ws_appSecret = str ''secret_y'',
        ws_domain = Domain_Lark\<rparr>,
      activeWebhookServer = Some \<lparr>server_ref = 7\<rparr>, calls = []\<rparr> =
     (Inl (Error (str ''server is not running'')),
      \<lparr>activeWsClient = None, activeWebhookServer = Some \<lparr>server_ref = 7\<rparr>,
       calls = [WebhookServer_stop 7]\<rparr>)"
  by (simp add: stopMonitor_def stop_throws_def Let_def)

text \<open>
  C8, amended. stopMonitor leaves no socket client in the slot, and the only call it
  makes on a collaborator is the stop of the active webhook server: no method of the
  socket client is called. If a webhook server is active, its stop operation is called;
  when that call returns, the slot of the server is cleared and stopMonitor returns, and
  when it throws, the error leaves stopMonitor and the server stays in its slot. With no
  active connection stopMonitor changes nothing and raises nothing.
\<close>

theorem stopMonitor_effect:
  "(\<exists>r s'. stopMonitor stop s = (r, s') \<and> activeWsClient s' = None \<and>
      (\<forall>c. c \<in> set (calls s') \<and> c \<notin> set (calls s) \<longrightarrow>
         (\<exists>server. activeWebhookServer s = Some server \<and> c = WebhookServer_stop (server_ref server))) \<and>
      (\<forall>server. activeWebhookServer s = Some server \<longrightarrow>
         calls s' = calls s @ [WebhookServer_stop (server_ref server)] \<and>
         (stop server = None \<longrightarrow> r = Inr () \<and> activeWebhookServer s' = None) \<and>
         (\<forall>e. stop server = Some e \<longrightarrow> r = Inl e \<and> activeWebhookServer s' = Some server)) \<and>
      (activeWebhookServer s = None \<longrightarrow>
         r = Inr () \<and> calls s' = calls s \<and> activeWebhookServer s' = None)) \<and>
   (activeWsClient s = None \<and> activeWebhookServer s = None \<longrightarrow> stopMonitor stop s = (Inr (), s))"
proof -
  have idle: "stopMonitor stop s = (Inr (), s)"
    if "activeWsClient s = None \<and> activeWebhookServer s = None"
    using that by (simp add: stopMonitor_def)
  have run: "\<exists>r s'. stopMonitor stop s = (r, s') \<and> activeWsClient s' = None \<and>
      (\<forall>c. c \<in> set (calls s') \<and> c \<notin> set (calls s) \<longrightarrow>
         (\<exists>server. activeWebhookServer s = Some server \<and> c = WebhookServer_stop (server_ref server))) \<and>
      (\<forall>server. activeWebhookServer s = Some server \<longrightarrow>
         calls s' = calls s @ [WebhookServer_stop (server_ref server)] \<and>
         (stop server = None \<longrightarrow> r = Inr () \<and> activeWebhookServer s' = None) \<and>
         (\<forall>e. stop server = Some e \<longrightarrow> r = Inl e \<and> activeWebhookServer s' = Some server)) \<and>
      (activeWebhookServer s = None \<longrightarrow>
         r = Inr () \<and> calls s' = calls s \<and> activeWebhookServer s' = None)"
  proof (cases "activeWebhookServer s")
    case None
    then show ?thesis
      by (simp add: stopMonitor_def)
  next
    case (Some server)
    then show ?thesis
      by (cases "stop server") (auto simp: stopMonitor_def Let_def)
  qed
  from run idle show ?thesis
    by blast
qed

theorem stopMonitor_effect_witness:
  "stop_returns \<lparr>server_ref = 7\<rparr> = None \<and>
   stopMonitor stop_returns
     \<lparr>activeWsClient = Some \<lparr>ws_ref = 3, ws_appId = str ''cli_x'', ws_appSecret = str ''secret_y'',
        ws_domain = Domain_Lark\<rparr>,
      activeWebhookServer = Some \<lparr>server_ref = 7\<rparr>, calls = [WSClient_call 3 (str ''start'')]\<rparr> =
     (Inr (), \<lparr>activeWsClient = None, activeWebhookServer = None,
        calls = [WSClient_call 3 (str ''start''), WebhookServer_stop 7]\<rparr>) \<and>
   stop_throws \<lparr>server_ref = 8\<rparr> = Some (Error (str ''server is not running'')) \<and>
   stopMonitor stop_throws
     \<lparr>activeWsClient = None, activeWebhookServer = Some \<lparr>server_ref = 8\<rparr>, calls = []\<rparr> =
     (Inl (Error (str ''server is not running'')),
      \<lparr>activeWsClient = None, activeWebhookServer = Some \<lparr>server_ref = 8\<rparr>,
       calls = [WebhookServer_stop 8]\<rparr>) \<and>
   stopMonitor stop_returns \<lparr>activeWsClient = None, activeWebhookServer = None, calls = []\<rparr> =
     (Inr (), \<lparr>activeWsClient = None, activeWebhookServer = None, calls = []\<rparr>)"
proof -
  let ?s = "\<lparr>activeWsClient = Some \<lparr>ws_ref = 3, ws_appId = str ''cli_x'',
        ws_appSecret = str ''secret_y'', ws_domain = Domain_Lark\<rparr>,
      activeWebhookServer = Some \<lparr>server_ref = 7\<rparr>, calls = [WSClient_call 3 (str ''start'')]\<rparr>"
  let ?t = "\<lparr>activeWsClient = None, activeWebhookServer = Some \<lparr>server_ref = 8\<rparr>, calls = []\<rparr>"
  let ?i = "\<lparr>activeWsClient = None, activeWebhookServer = None, calls = []\<rparr>"
  have ret: "stop_returns \<lparr>server_ref = 7\<rparr> = None"
    by (simp add: stop_returns_def)
  have thr: "stop_throws \<lparr>server_ref = 8\<rparr> = Some (Error (str ''server is not running''))"
    by (simp add: stop_throws_def)
  obtain r s' where run: "stopMonitor stop_returns ?s = (r, s')"
    and ws: "activeWsClient s' = None"
    and hook: "\<forall>server. activeWebhookServer ?s = Some server \<longrightarrow>
         calls s' = calls ?s @ [WebhookServer_stop (server_ref server)] \<and>
         (stop_returns server = None \<longrightarrow> r = Inr () \<and> activeWebhookServer s' = None) \<and>
         (\<forall>e. stop_returns server = Some e \<longrightarrow> r = Inl e \<and> activeWebhookServer s' = Some server)"
    using stopMonitor_effect [of stop_returns ?s] by blast
  have a: "calls s' = [WSClient_call 3 (str ''start''), WebhookServer_stop 7]"
    "r = Inr ()" "activeWebhookServer s' = None"
    using hook [rule_format, of "\<lparr>server_ref = 7\<rparr>"] ret by simp_all
  with ws have s': "s' = \<lparr>activeWsClient = None, activeWebhookServer = None,
        calls = [WSClient_call 3 (str ''start''), WebhookServer_stop 7]\<rparr>"
    by (cases s') simp
  obtain q t' where run2: "stopMonitor stop_throws ?t = (q, t')"
    and ws2: "activeWsClient t' = None"
    and hook2: "\<forall>server. activeWebhookServer ?t = Some server \<longrightarrow>
         calls t' = calls ?t @ [WebhookServer_stop (server_ref server)] \<and>
         (stop_throws server = None \<longrightarrow> q = Inr () \<and> activeWebhookServer t' = None) \<and>
         (\<forall>e. stop_throws server = Some e \<longrightarrow> q = Inl e \<and> activeWebhookServer t' = Some server)"
    using stopMonitor_effect [of stop_throws ?t] by blast
  have b: "calls t' = [WebhookServer_stop 8]"
    "q = Inl (Error (str ''server is not running''))"
    "activeWebhookServer t' = Some \<lparr>server_ref = 8\<rparr>"
    using hook2 [rule_format, of "\<lparr>server_ref = 8\<rparr>"] thr by simp_all
  with ws2 have t': "t' = \<lparr>activeWsClient = None, activeWebhookServer = Some \<lparr>server_ref = 8\<rparr>,
       calls = [WebhookServer_stop 8]\<rparr>"
    by (cases t') simp
  have idle: "stopMonitor stop_returns ?i = (Inr (), ?i)"
    using stopMonitor_effect [of stop_returns ?i] by simp
  show ?thesis
    using run run2 ret thr idle a(2) b(2) s' t' by simp
qed

section \<open>The message normalizer\<close>

lemma get_prop_not_null: "v \<noteq> JNull \<Longrightarrow> get_prop v n = Inr (field v n)"
  by (simp add: get_prop_def)

lemma filter_tag_text_ok: "JNull \<notin> set xs \<Longrightarrow> filter_tag_text xs = Inr (filter is_text_block xs)"
  by (induction xs) (auto simp: get_prop_def is_text_block_def)

lemma filter_tag_text_null: "JNull \<in> set xs \<Longrightarrow> filter_tag_text xs = Inl TypeError"
proof (induction xs)
  case Nil
  then show ?case by simp
next
  case (Cons x xs)
  show ?case
  proof (cases "x = JNull")
    case True
    then show ?thesis by (simp add: get_prop_def)
  next
    case False
    with Cons have "filter_tag_text xs = Inl TypeError" by simp
    with False show ?thesis by (simp add: get_prop_def)
  qed
qed

lemma map_text_ok:
  "JNull \<notin> set xs \<Longrightarrow> map_text xs = Inr (map (\<lambda>b. field b (str ''text'')) xs)"
  by (induction xs) (auto simp: get_prop_def)

lemma join_strings:
  "\<forall>x \<in> set xs. x = JNull \<or> (\<exists>s. x = JStr s) \<Longrightarrow>
   join nts [] xs = Inr (concat (map string_of xs))"
  by (induction xs) (auto simp: string_of_def)

lemma extractText_unparseable:
  "JSON_parse content = Inl e \<Longrightarrow> extractText nts content kind = JStr content"
  by (simp add: extractText_def extractText_try_def)

lemma extractText_other:
  "JSON_parse content = Inr p \<Longrightarrow> kind \<noteq> str ''text'' \<Longrightarrow> kind \<noteq> str ''post'' \<Longrightarrow>
   extractText nts content kind = JStr (str ''['' @ kind @ str '' message]'')"
  by (simp add: extractText_def extractText_try_def)

lemma extractText_text:
  "JSON_parse content = Inr p \<Longrightarrow>
   extractText nts content (str ''text'') =
     (if p = JNull then JStr content else nullish_json (field p (str ''text'')) (JStr []))"
  by (simp add: extractText_def extractText_try_def get_prop_def)

lemma post_ne_text: "str ''post'' \<noteq> str ''text''"
  by (simp add: str_def)

lemma extractText_post_null:
  "JSON_parse content = Inr JNull \<Longrightarrow> extractText nts content (str ''post'') = JStr content"
  by (simp add: extractText_def extractText_try_def get_prop_def post_ne_text)

lemma extractText_post_title:
  "JSON_parse content = Inr p \<Longrightarrow> p \<noteq> JNull \<Longrightarrow>
   \<forall>blocks. field p (str ''content'') \<noteq> Some (JArr blocks) \<Longrightarrow>
   extractText nts content (str ''post'') = nullish_json (field p (str ''title'')) (JStr [])"
  by (auto simp: extractText_def extractText_try_def get_prop_def post_ne_text
      split: option.splits json.splits)

lemma extractText_post_blocks:
  assumes "JSON_parse content = Inr p" and "p \<noteq> JNull"
    and "field p (str ''content'') = Some (JArr blocks)"
  shows "extractText nts content (str ''post'') =
     (if JNull \<in> set (flat blocks) then JStr content
      else case join nts [] (map block_text (filter is_text_block (flat blocks))) of
             Inl e \<Rightarrow> JStr content
           | Inr s \<Rightarrow> JStr s)"
proof (cases "JNull \<in> set (flat blocks)")
  case True
  then show ?thesis
    using assms
    by (simp add: extractText_def extractText_try_def get_prop_def post_ne_text
        filter_tag_text_null)
next
  case False
  then have kept: "JNull \<notin> set (filter is_text_block (flat blocks))"
    by simp
  have texts: "map ((\<lambda>t. nullish_json t JNull) \<circ> (\<lambda>b. field b (str ''text'')))
       (filter is_text_block (flat blocks)) =
     map block_text (filter is_text_block (flat blocks))"
    by (simp add: block_text_def comp_def)
  show ?thesis
    using assms False
    by (simp add: extractText_def extractText_try_def get_prop_def post_ne_text
        filter_tag_text_ok map_text_ok [OF kept] texts split: sum.splits)
qed

text \<open>
  C4, as stated, fails: the payload \<^verbatim>\<open>{"content":[[null]]}\<close> parses, its content array
  holds no block tagged as plain text, so the concatenation of the kept texts is the
  empty string; but testing the tag of the block \<^verbatim>\<open>null\<close> raises a TypeError inside the
  \<^verbatim>\<open>try\<close>, and extractText returns the raw payload.
\<close>

theorem extractText_null_block_counterexample:
  \<open>JSON_parse (str ''{"content":[[null]]}'') = Inr (JObj [(str ''content'', JArr [JArr [JNull]])]) \<and>
   filter is_text_block (flat [JArr [JNull]]) = [] \<and>
   extractText id (str ''{"content":[[null]]}'') (str ''post'') = JStr (str ''{"content":[[null]]}'') \<and>
   extractText id (str ''{"content":[[null]]}'') (str ''post'') \<noteq> JStr []\<close>
  by code_simp

text \<open>
  C4, amended. extractText returns the raw string verbatim for every payload that does
  not parse, and also when inspecting the parsed payload raises: the payload is
  \<^verbatim>\<open>null\<close> (kinds "text" and "post"), a flattened block is \<^verbatim>\<open>null\<close>, or a kept text
  cannot be converted to a string. Otherwise: for the kind "text" it returns the text
  member of the payload, the empty string if that is absent or \<^verbatim>\<open>null\<close>; for the kind
  "post" with a content array it flattens the array one level, keeps the blocks tagged
  as plain text and joins their texts in order (the concatenation of the texts when each
  is a string, absent or \<^verbatim>\<open>null\<close>), and without a content array it returns the title
  member, the empty string if that is absent or \<^verbatim>\<open>null\<close>; for any other kind it returns
  the kind in brackets, "[kind message]". In particular
  extractText("not json", "text") = "not json".
\<close>

theorem extractText_by_kind:
  \<open>(\<forall>e. JSON_parse content = Inl e \<longrightarrow> extractText nts content kind = JStr content) \<and>
   (\<forall>p. JSON_parse content = Inr p \<longrightarrow>
      (kind = str ''text'' \<longrightarrow>
         extractText nts content kind =
           (if p = JNull then JStr content else nullish_json (field p (str ''text'')) (JStr []))) \<and>
      (kind = str ''post'' \<longrightarrow>
         (p = JNull \<longrightarrow> extractText nts content kind = JStr content) \<and>
         (\<forall>blocks. p \<noteq> JNull \<and> field p (str ''content'') = Some (JArr blocks) \<longrightarrow>
            (JNull \<in> set (flat blocks) \<longrightarrow> extractText nts content kind = JStr content) \<and>
            (JNull \<notin> set (flat blocks) \<longrightarrow>
               (\<forall>e. join nts [] (map block_text (filter is_text_block (flat blocks))) = Inl e \<longrightarrow>
                  extractText nts content kind = JStr content) \<and>
               (\<forall>s. join nts [] (map block_text (filter is_text_block (flat blocks))) = Inr s \<longrightarrow>
                  extractText nts content kind = JStr s) \<and>
               ((\<forall>b \<in> set (filter is_text_block (flat blocks)).
                    block_text b = JNull \<or> (\<exists>s. block_text b = JStr s)) \<longrightarrow>
                  extractText nts content kind =
                    JStr (concat (map (\<lambda>b. string_of (block_text b))
                      (filter is_text_block (flat blocks))))))) \<and>
         (p \<noteq> JNull \<and> (\<forall>blocks. field p (str ''content'') \<noteq> Some (JArr blocks)) \<longrightarrow>
            extractText nts content kind = nullish_json (field p (str ''title'')) (JStr []))) \<and>
      (kind \<noteq> str ''text'' \<and> kind \<noteq> str ''post'' \<longrightarrow>
         extractText nts content kind = JStr (str ''['' @ kind @ str '' message]''))) \<and>
   extractText nts (str ''not json'') (str ''text'') = JStr (str ''not json'')\<close>
proof -
  have strings: "extractText nts content (str ''post'') =
      JStr (concat (map (\<lambda>b. string_of (block_text b)) (filter is_text_block (flat blocks))))"
    if p: "JSON_parse content = Inr p" "p \<noteq> JNull"
      "field p (str ''content'') = Some (JArr blocks)"
      and ok: "JNull \<notin> set (flat blocks)"
      and str: "\<forall>b \<in> set (filter is_text_block (flat blocks)).
          block_text b = JNull \<or> (\<exists>s. block_text b = JStr s)"
    for p blocks
  proof -
    have "\<forall>x \<in> set (map block_text (filter is_text_block (flat blocks))).
        x = JNull \<or> (\<exists>s. x = JStr s)"
      using str by auto
    then have "join nts [] (map block_text (filter is_text_block (flat blocks))) =
        Inr (concat (map string_of (map block_text (filter is_text_block (flat blocks)))))"
      by (rule join_strings)
    then show ?thesis
      using ok by (simp add: extractText_post_blocks [OF p] comp_def)
  qed
  have a: "\<forall>e. JSON_parse content = Inl e \<longrightarrow> extractText nts content kind = JStr content"
    by (simp add: extractText_unparseable)
  have c: "extractText nts (str ''not json'') (str ''text'') = JStr (str ''not json'')"
    by code_simp
  {
    fix p
    assume p: "JSON_parse content = Inr p"
    let ?T = "kind = str ''text'' \<longrightarrow>
         extractText nts content kind =
           (if p = JNull then JStr content else nullish_json (field p (str ''text'')) (JStr []))"
    let ?N = "p = JNull \<longrightarrow> extractText nts content kind = JStr content"
    let ?B = "\<forall>blocks. p \<noteq> JNull \<and> field p (str ''content'') = Some (JArr blocks) \<longrightarrow>
            (JNull \<in> set (flat blocks) \<longrightarrow> extractText nts content kind = JStr content) \<and>
            (JNull \<notin> set (flat blocks) \<longrightarrow>
               (\<forall>e. join nts [] (map block_text (filter is_text_block (flat blocks))) = Inl e \<longrightarrow>
                  extractText nts content kind = JStr content) \<and>
               (\<forall>s. join nts [] (map block_text (filter is_text_block (flat blocks))) = Inr s \<longrightarrow>
                  extractText nts content kind = JStr s) \<and>
               ((\<forall>b \<in> set (filter is_text_block (flat blocks)).
                    block_text b = JNull \<or> (\<exists>s. block_text b = JStr s)) \<longrightarrow>
                  extractText nts content kind =
                    JStr (concat (map (\<lambda>b. string_of (block_text b))
                      (filter is_text_block (flat blocks))))))"
    let ?I = "p \<noteq> JNull \<and> (\<forall>blocks. field p (str ''content'') \<noteq> Some (JArr blocks)) \<longrightarrow>
            extractText nts content kind = nullish_json (field p (str ''title'')) (JStr [])"
    let ?O = "kind \<noteq> str ''text'' \<and> kind \<noteq> str ''post'' \<longrightarrow>
         extractText nts content kind = JStr (str ''['' @ kind @ str '' message]'')"
    have t: ?T
      using extractText_text [OF p] by simp
    have o: ?O
      using extractText_other [OF p] by simp
    have post: "kind = str ''post'' \<longrightarrow> ?N \<and> ?B \<and> ?I"
    proof
      assume k: "kind = str ''post''"
      have n: ?N
        using p k by (simp add: extractText_post_null)
      have i: ?I
        using extractText_post_title [OF p] k by simp
      have b: ?B
      proof (intro allI impI, elim conjE)
        fix blocks
        assume q: "p \<noteq> JNull" "field p (str ''content'') = Some (JArr blocks)"
        note eq = extractText_post_blocks [OF p q, of nts]
        show "(JNull \<in> set (flat blocks) \<longrightarrow> extractText nts content kind = JStr content) \<and>
            (JNull \<notin> set (flat blocks) \<longrightarrow>
               (\<forall>e. join nts [] (map block_text (filter is_text_block (flat blocks))) = Inl e \<longrightarrow>
                  extractText nts content kind = JStr content) \<and>
               (\<forall>s. join nts [] (map block_text (filter is_text_block (flat blocks))) = Inr s \<longrightarrow>
                  extractText nts content kind = JStr s) \<and>
               ((\<forall>b \<in> set (filter is_text_block (flat blocks)).
                    block_text b = JNull \<or> (\<exists>s. block_text b = JStr s)) \<longrightarrow>
                  extractText nts content kind =
                    JStr (concat (map (\<lambda>b. string_of (block_text b))
                      (filter is_text_block (flat blocks))))))"
          unfolding k using eq strings [OF p q] by simp
      qed
      from n b i show "?N \<and> ?B \<and> ?I"
        by (intro conjI)
    qed
    from t post o have "?T \<and> (kind = str ''post'' \<longrightarrow> ?N \<and> ?B \<and> ?I) \<and> ?O"
      by (intro conjI)
  }
  then have b: "\<forall>p. JSON_parse content = Inr p \<longrightarrow>
      (kind = str ''text'' \<longrightarrow>
         extractText nts content kind =
           (if p = JNull then JStr content else nullish_json (field p (str ''text'')) (JStr []))) \<and>
      (kind = str ''post'' \<longrightarrow>
         (p = JNull \<longrightarrow> extractText nts content kind = JStr content) \<and>
         (\<forall>blocks. p \<noteq> JNull \<and> field p (str ''content'') = Some (JArr blocks) \<longrightarrow>
            (JNull \<in> set (flat blocks) \<longrightarrow> extractText nts content kind = JStr content) \<and>
            (JNull \<notin> set (flat blocks) \<longrightarrow>
               (\<forall>e. join nts [] (map block_text (filter is_text_block (flat blocks))) = Inl e \<longrightarrow>
                  extractText nts content kind = JStr content) \<and>
               (\<forall>s. join nts [] (map block_text (filter is_text_block (flat blocks))) = Inr s \<longrightarrow>
                  extractText nts content kind = JStr s) \<and>
               ((\<forall>b \<in> set (filter is_text_block (flat blocks)).
                    block_text b = JNull \<or> (\<exists>s. block_text b = JStr s)) \<longrightarrow>
                  extractText nts content kind =
                    JStr (concat (map (\<lambda>b. string_of (block_text b))
                      (filter is_text_block (flat blocks))))))) \<and>
         (p \<noteq> JNull \<and> (\<forall>blocks. field p (str ''content'') \<noteq> Some (JArr blocks)) \<longrightarrow>
            extractText nts content kind = nullish_json (field p (str ''title'')) (JStr []))) \<and>
      (kind \<noteq> str ''text'' \<and> kind \<noteq> str ''post'' \<longrightarrow>
         extractText nts content kind = JStr (str ''['' @ kind @ str '' message]''))"
    by (intro allI impI)
  from a b c show ?thesis
    by (intro conjI)
qed

theorem extractText_by_kind_witness:
  \<open>JSON_parse (str ''{"text":"hello"}'') = Inr (JObj [(str ''text'', JStr (str ''hello''))]) \<and>
   extractText id (str ''{"text":"hello"}'') (str ''text'') = JStr (str ''hello'') \<and>
   JSON_parse (str ''{"content":[[{"tag":"text","text":"a"},{"tag":"at","text":"x"}],[{"tag":"text","text":"b"}]]}'') =
     Inr (JObj [(str ''content'', JArr
       [JArr [JObj [(str ''tag'', JStr (str ''text'')), (str ''text'', JStr (str ''a''))],
              JObj [(str ''tag'', JStr (str ''at'')), (str ''text'', JStr (str ''x''))]],
        JArr [JObj [(str ''tag'', JStr (str ''text'')), (str ''text'', JStr (str ''b''))]]])]) \<and>
   extractText id (str ''{"content":[[{"tag":"text","text":"a"},{"tag":"at","text":"x"}],[{"tag":"text","text":"b"}]]}'')
     (str ''post'') = JStr (str ''ab'') \<and>
   JSON_parse (str ''{"title":"T"}'') = Inr (JObj [(str ''title'', JStr (str ''T''))]) \<and>
   extractText id (str ''{"title":"T"}'') (str ''post'') = JStr (str ''T'') \<and>
   extractText id (str ''{"title":"T"}'') (str ''image'') = JStr (str ''[image message]'') \<and>
   JSON_parse (str ''hello'') = Inl SyntaxError \<and>
   extractText id (str ''hello'') (str ''image'') = JStr (str ''hello'') \<and>
   JSON_parse (str ''null'') = Inr JNull \<and>
   extractText id (str ''null'') (str ''post'') = JStr (str ''null'')\<close>
proof -
  let ?c = \<open>str ''{"text":"hello"}''\<close>
  let ?p = "JObj [(str ''text'', JStr (str ''hello''))]"
  let ?d = \<open>str ''{"content":[[{"tag":"text","text":"a"},{"tag":"at","text":"x"}],[{"tag":"text","text":"b"}]]}''\<close>
  let ?blocks = "[JArr [JObj [(str ''tag'', JStr (str ''text'')), (str ''text'', JStr (str ''a''))],
              JObj [(str ''tag'', JStr (str ''at'')), (str ''text'', JStr (str ''x''))]],
        JArr [JObj [(str ''tag'', JStr (str ''text'')), (str ''text'', JStr (str ''b''))]]]"
  let ?q = "JObj [(str ''content'', JArr ?blocks)]"
  let ?t = \<open>str ''{"title":"T"}''\<close>
  let ?u = "JObj [(str ''title'', JStr (str ''T''))]"
  have p: "JSON_parse ?c = Inr ?p"
    by code_simp
  have q: "JSON_parse ?d = Inr ?q"
    by code_simp
  have u: "JSON_parse ?t = Inr ?u"
    by code_simp
  have h: "JSON_parse (str ''hello'') = Inl SyntaxError"
    by code_simp
  have n: "JSON_parse (str ''null'') = Inr JNull"
    by code_simp
  have pv: "?p \<noteq> JNull" "nullish_json (field ?p (str ''text'')) (JStr []) = JStr (str ''hello'')"
    by (simp_all add: field_def nullish_json_def)
  have qv: "?q \<noteq> JNull \<and> field ?q (str ''content'') = Some (JArr ?blocks)"
    by (simp add: field_def)
  have uv: "?u \<noteq> JNull \<and> (\<forall>blocks. field ?u (str ''content'') \<noteq> Some (JArr blocks))"
    "nullish_json (field ?u (str ''title'')) (JStr []) = JStr (str ''T'')"
    by (simp_all add: field_def nullish_json_def str_def)
  have kinds: "str ''image'' \<noteq> str ''text'' \<and> str ''image'' \<noteq> str ''post''"
    by (simp add: str_def)
  have br: "str ''['' @ str ''image'' @ str '' message]'' = str ''[image message]''"
    by (simp add: str_def)
  have nn: "JNull \<notin> set (flat ?blocks)"
    by (simp add: flat_def)
  have ss: "\<forall>b \<in> set (filter is_text_block (flat ?blocks)).
      block_text b = JNull \<or> (\<exists>s. block_text b = JStr s)"
    by (simp add: flat_def is_text_block_def block_text_def field_def nullish_json_def)
  have val: "concat (map (\<lambda>b. string_of (block_text b)) (filter is_text_block (flat ?blocks))) =
      str ''ab''"
    by code_simp
  note t = extractText_by_kind [of ?c id "str ''text''", THEN conjunct2, THEN conjunct1,
      rule_format, OF p, THEN conjunct1, rule_format, OF refl]
  note b = extractText_by_kind [of ?d id "str ''post''", THEN conjunct2, THEN conjunct1,
      rule_format, OF q, THEN conjunct2, THEN conjunct1, rule_format, OF refl,
      THEN conjunct2, THEN conjunct1, rule_format, OF qv,
      THEN conjunct2, rule_format, OF nn,
      THEN conjunct2, THEN conjunct2, rule_format, OF ss [rule_format]]
  note ti = extractText_by_kind [of ?t id "str ''post''", THEN conjunct2, THEN conjunct1,
      rule_format, OF u, THEN conjunct2, THEN conjunct1, rule_format, OF refl,
      THEN conjunct2, THEN conjunct2, rule_format, OF uv(1)]
  note ot = extractText_by_kind [of ?t id "str ''image''", THEN conjunct2, THEN conjunct1,
      rule_format, OF u, THEN conjunct2, THEN conjunct2, rule_format, OF kinds]
  note un = extractText_by_kind [of "str ''hello''" id "str ''image''", THEN conjunct1,
      rule_format, OF h]
  note nu = extractText_by_kind [of "str ''null''" id "str ''post''", THEN conjunct2,
      THEN conjunct1, rule_format, OF n, THEN conjunct2, THEN conjunct1, rule_format, OF refl,
      THEN conjunct1, rule_format, OF refl]
  have 1: "extractText id ?c (str ''text'') = JStr (str ''hello'')"
    using t pv by simp
  have 2: "extractText id ?d (str ''post'') = JStr (str ''ab'')"
    using b val by simp
  have 3: "extractText id ?t (str ''post'') = JStr (str ''T'')"
    using ti uv(2) by simp
  have 4: "extractText id ?t (str ''image'') = JStr (str ''[image message]'')"
    using ot br by simp
  from p q u h n 1 2 3 4 un nu show ?thesis
    by (intro conjI)
qed

section \<open>Parsing and routing an event\<close>

lemma parseMessage_of_string:
  assumes "extractText nts (message_content (message event)) (message_type (message event)) = JStr s"
  shows "(parseMessage nts event = Inr None \<longleftrightarrow> trim s = []) \<and>
     (trim s \<noteq> [] \<longrightarrow> (\<exists>parsed. parseMessage nts event = Inr (Some parsed) \<and> parsed_text parsed = s))"
  using assms by (simp add: parseMessage_def)

lemma parseMessage_raises_iff:
  "(\<exists>e. parseMessage nts event = Inl e) \<longleftrightarrow>
   (\<forall>s. extractText nts (message_content (message event)) (message_type (message event)) \<noteq> JStr s)"
  by (cases "extractText nts (message_content (message event)) (message_type (message event))")
    (simp_all add: parseMessage_def)

lemma routeMessage_dropped:
  "pluginApi s = Some api \<Longrightarrow> parseMessage nts event = Inr None \<Longrightarrow>
   routeMessage nts event account s =
     (Inr (), s\<lparr>effects := effects s @
        [Logger_debug (str ''[lark] Skipping empty or unparseable message'')]\<rparr>)"
  by (simp add: routeMessage_def getLarkRuntime_def)

text \<open>
  C5 at the failing input: an event of kind "text" whose content is \<^verbatim>\<open>{"text":5}\<close>.
  extractText returns the number 5, which has no method \<^verbatim>\<open>trim\<close>: parseMessage raises a
  TypeError instead of returning \<^verbatim>\<open>null\<close> or a ParsedMessage, and routeMessage passes
  the error on without logging or dispatching.
\<close>

theorem parseMessage_numeric_text:
  \<open>extractText id (message_content (message (event_with (str ''text'') (str ''{"text":5}''))))
     (message_type (message (event_with (str ''text'') (str ''{"text":5}'')))) = JNum (str ''5'') \<and>
   parseMessage id (event_with (str ''text'') (str ''{"text":5}'')) = Inl TypeError \<and>
   routeMessage id (event_with (str ''text'') (str ''{"text":5}''))
     (account_of (str ''cli_x'') (str ''secret_y'') Lark)
     \<lparr>pluginApi = Some host_accepts, effects = []\<rparr> =
     (Inl TypeError, \<lparr>pluginApi = Some host_accepts, effects = []\<rparr>)\<close>
proof -
  have x: \<open>extractText id (str ''{"text":5}'') (str ''text'') = JNum (str ''5'')\<close>
    by code_simp
  have m: \<open>message_content (message (event_with (str ''text'') (str ''{"text":5}''))) =
      str ''{"text":5}''\<close>
    \<open>message_type (message (event_with (str ''text'') (str ''{"text":5}''))) = str ''text''\<close>
    by (simp_all add: event_with_def)
  have p: \<open>parseMessage id (event_with (str ''text'') (str ''{"text":5}'')) = Inl TypeError\<close>
    unfolding parseMessage_def m x by simp
  have r: \<open>routeMessage id (event_with (str ''text'') (str ''{"text":5}''))
     (account_of (str ''cli_x'') (str ''secret_y'') Lark)
     \<lparr>pluginApi = Some host_accepts, effects = []\<rparr> =
     (Inl TypeError, \<lparr>pluginApi = Some host_accepts, effects = []\<rparr>)\<close>
    by (simp add: routeMessage_def getLarkRuntime_def p)
  from x m p r show ?thesis
    by simp
qed

end
